theory Spec2Isabelle
  imports Complex_Main
begin

section \<open>JavaScript numbers\<close>

text \<open>
  A JavaScript \<open>number\<close> is modelled as a real extended with the three special values
  \<open>NaN\<close>, \<open>+Infinity\<close> and \<open>-Infinity\<close>. Everything the program decides by looking at
  a number (is it \<open>NaN\<close>, is it falsy, is it smaller than another one) follows the
  language's rules. Arithmetic on finite values is exact here, whereas the program's
  doubles round, overflow and underflow; the sign of zero is not modelled either. The
  general properties proved in this theory therefore use of finite arithmetic only what
  holds of the doubles as well: the results at 0, the sign and the order of a result, and
  how \<open>NaN\<close> and the infinities propagate. None of them rests on the exact value of a
  sum, a product or a quotient, or on a trigonometric identity. The examples compute with
  small integers and halves, on which the doubles are exact, and take the trigonometric
  functions at 0 only.
\<close>

datatype jsnum = NaN | PInf | NInf | Fin real

fun js_neg :: "jsnum \<Rightarrow> jsnum" where
  "js_neg NaN = NaN"
| "js_neg PInf = NInf"
| "js_neg NInf = PInf"
| "js_neg (Fin a) = Fin (- a)"

fun js_add :: "jsnum \<Rightarrow> jsnum \<Rightarrow> jsnum" where
  "js_add (Fin a) (Fin b) = Fin (a + b)"
| "js_add NaN _ = NaN"
| "js_add _ NaN = NaN"
| "js_add PInf NInf = NaN"
| "js_add NInf PInf = NaN"
| "js_add PInf _ = PInf"
| "js_add _ PInf = PInf"
| "js_add NInf _ = NInf"
| "js_add _ NInf = NInf"

definition js_sub :: "jsnum \<Rightarrow> jsnum \<Rightarrow> jsnum" where
  "js_sub a b = js_add a (js_neg b)"

fun js_mul :: "jsnum \<Rightarrow> jsnum \<Rightarrow> jsnum" where
  "js_mul (Fin a) (Fin b) = Fin (a * b)"
| "js_mul NaN _ = NaN"
| "js_mul _ NaN = NaN"
| "js_mul PInf PInf = PInf"
| "js_mul PInf NInf = NInf"
| "js_mul NInf PInf = NInf"
| "js_mul NInf NInf = PInf"
| "js_mul PInf (Fin b) = (if b = 0 then NaN else if 0 < b then PInf else NInf)"
| "js_mul NInf (Fin b) = (if b = 0 then NaN else if 0 < b then NInf else PInf)"
| "js_mul (Fin a) PInf = (if a = 0 then NaN else if 0 < a then PInf else NInf)"
| "js_mul (Fin a) NInf = (if a = 0 then NaN else if 0 < a then NInf else PInf)"

text \<open>Division; a zero divisor is taken as \<open>+0\<close>.\<close>

fun js_div :: "jsnum \<Rightarrow> jsnum \<Rightarrow> jsnum" where
  "js_div (Fin a) (Fin b) =
     (if b \<noteq> 0 then Fin (a / b)
      else if a = 0 then NaN else if 0 < a then PInf else NInf)"
| "js_div NaN _ = NaN"
| "js_div _ NaN = NaN"
| "js_div (Fin a) PInf = Fin 0"
| "js_div (Fin a) NInf = Fin 0"
| "js_div PInf (Fin b) = (if 0 \<le> b then PInf else NInf)"
| "js_div NInf (Fin b) = (if 0 \<le> b then NInf else PInf)"
| "js_div _ _ = NaN"

text \<open>The comparison \<open>a < b\<close>: false as soon as one side is \<open>NaN\<close>.\<close>

fun js_lt :: "jsnum \<Rightarrow> jsnum \<Rightarrow> bool" where
  "js_lt (Fin a) (Fin b) = (a < b)"
| "js_lt NaN _ = False"
| "js_lt _ NaN = False"
| "js_lt PInf _ = False"
| "js_lt _ NInf = False"
| "js_lt NInf _ = True"
| "js_lt _ PInf = True"

definition js_gt :: "jsnum \<Rightarrow> jsnum \<Rightarrow> bool" where
  "js_gt a b = js_lt b a"

definition js_le :: "jsnum \<Rightarrow> jsnum \<Rightarrow> bool" where
  "js_le a b = (a \<noteq> NaN \<and> b \<noteq> NaN \<and> \<not> js_lt b a)"

fun js_abs :: "jsnum \<Rightarrow> jsnum" where
  "js_abs NaN = NaN"
| "js_abs PInf = PInf"
| "js_abs NInf = PInf"
| "js_abs (Fin a) = Fin \<bar>a\<bar>"

definition isNaN :: "jsnum \<Rightarrow> bool" where
  "isNaN x = (x = NaN)"

text \<open>A number is falsy when it is zero or \<open>NaN\<close>.\<close>

definition truthy :: "jsnum \<Rightarrow> bool" where
  "truthy x = (x \<noteq> NaN \<and> x \<noteq> Fin 0)"

text \<open>\<open>x || 0\<close> for \<open>x : number | null\<close>, and \<open>x || null\<close> for \<open>x : number\<close>.\<close>

definition or_zero :: "jsnum option \<Rightarrow> jsnum" where
  "or_zero x = (case x of None \<Rightarrow> Fin 0 | Some v \<Rightarrow> if truthy v then v else Fin 0)"

definition or_null :: "jsnum \<Rightarrow> jsnum option" where
  "or_null x = (if truthy x then Some x else None)"

text \<open>
  \<open>Math.max\<close> and \<open>Math.min\<close> over an argument list: start from \<open>-Infinity\<close>
  (\<open>+Infinity\<close>), return \<open>NaN\<close> at the first \<open>NaN\<close> argument.
\<close>

fun max_loop :: "jsnum \<Rightarrow> jsnum list \<Rightarrow> jsnum" where
  "max_loop highest [] = highest"
| "max_loop highest (x # xs) =
     (if x = NaN then NaN else max_loop (if js_gt x highest then x else highest) xs)"

definition Math_max :: "jsnum list \<Rightarrow> jsnum" where
  "Math_max xs = max_loop NInf xs"

fun min_loop :: "jsnum \<Rightarrow> jsnum list \<Rightarrow> jsnum" where
  "min_loop lowest [] = lowest"
| "min_loop lowest (x # xs) =
     (if x = NaN then NaN else min_loop (if js_lt x lowest then x else lowest) xs)"

definition Math_min :: "jsnum list \<Rightarrow> jsnum" where
  "Math_min xs = min_loop PInf xs"

section \<open>The data model\<close>

text \<open>An optional property (\<open>name?: ...\<close>) is either absent or present with a value.\<close>

datatype 'a optional = Absent | Present 'a

text \<open>A \<open>Date\<close> object holds a time value, which is \<open>NaN\<close> for an invalid date.\<close>

datatype Date = Date jsnum

record Point =
  lat :: jsnum
  lon :: jsnum
  ele :: "jsnum option"
  name :: "string option optional"
  sym_f :: "string option optional"
  cmt :: "string option optional"
  desc :: "string option optional"
  time :: "Date option optional"

record ElevationStats =
  max_f :: "jsnum option"
  min_f :: "jsnum option"
  pos_f :: "jsnum option"
  neg_f :: "jsnum option"
  avg_f :: "jsnum option"

section \<open>Elevation statistics\<close>

text \<open>
  One turn of the first loop of \<open>calcElevationStats\<close>, on the points at \<open>i\<close> and
  \<open>i + 1\<close>. Both raw elevations come out of \<open>|| 0\<close>, so the test against \<open>null\<close> that
  follows always passes; it is kept as the source has it.
\<close>

definition delta_step :: "Point \<Rightarrow> Point \<Rightarrow> jsnum \<times> jsnum \<Rightarrow> jsnum \<times> jsnum" where
  "delta_step p q acc =
     (let rawNextElevation = Some (or_zero (ele q));
          rawElevation = Some (or_zero (ele p))
      in case (rawNextElevation, rawElevation) of
           (Some n, Some r) \<Rightarrow>
             (let diff = js_sub n r
              in if js_lt diff (Fin 0) then (fst acc, js_add (snd acc) diff)
                 else if js_gt diff (Fin 0) then (js_add (fst acc) diff, snd acc)
                 else acc)
         | _ \<Rightarrow> acc)"

text \<open>The first loop: \<open>i\<close> runs over the adjacent pairs; the state is \<open>(dp, dm)\<close>.\<close>

fun delta_loop :: "Point list \<Rightarrow> jsnum \<times> jsnum \<Rightarrow> jsnum \<times> jsnum" where
  "delta_loop (p # q # ps) acc = delta_loop (q # ps) (delta_step p q acc)"
| "delta_loop _ acc = acc"

text \<open>The second loop: the state is the list \<open>elevation\<close> and \<open>sum\<close>.\<close>

fun collect_loop :: "Point list \<Rightarrow> jsnum list \<times> jsnum \<Rightarrow> jsnum list \<times> jsnum" where
  "collect_loop [] acc = acc"
| "collect_loop (p # ps) acc =
     (case ele p of
        None \<Rightarrow> collect_loop ps acc
      | Some rawElevation \<Rightarrow>
          (let e = or_zero (ele p)
           in collect_loop ps (fst acc @ [e], js_add (snd acc) e)))"

definition calcElevationStats :: "Point list \<Rightarrow> ElevationStats" where
  "calcElevationStats points =
     (let (dp, dm) = delta_loop points (Fin 0, Fin 0);
          (elevation, sum) = collect_loop points ([], Fin 0)
      in \<lparr> max_f = or_null (Math_max elevation),
           min_f = or_null (Math_min elevation),
           pos_f = or_null (js_abs dp),
           neg_f = or_null (js_abs dm),
           avg_f = or_null (js_div sum (Fin (real (length elevation)))) \<rparr>)"

section \<open>Great-circle distance\<close>

definition Math_PI :: jsnum where
  "Math_PI = Fin pi"

definition Math_sin :: "jsnum \<Rightarrow> jsnum" where
  "Math_sin x = (case x of Fin a \<Rightarrow> Fin (sin a) | _ \<Rightarrow> NaN)"

definition Math_cos :: "jsnum \<Rightarrow> jsnum" where
  "Math_cos x = (case x of Fin a \<Rightarrow> Fin (cos a) | _ \<Rightarrow> NaN)"

definition Math_sqrt :: "jsnum \<Rightarrow> jsnum" where
  "Math_sqrt x =
     (case x of NaN \<Rightarrow> NaN | NInf \<Rightarrow> NaN | PInf \<Rightarrow> PInf
      | Fin a \<Rightarrow> if a < 0 then NaN else Fin (sqrt a))"

text \<open>\<open>Math.atan2(y, x)\<close>: the angle of the point \<open>(x, y)\<close>, in \<open>(-\<pi>, \<pi>]\<close>.\<close>

fun Math_atan2 :: "jsnum \<Rightarrow> jsnum \<Rightarrow> jsnum" where
  "Math_atan2 (Fin y) (Fin x) =
     (if 0 < x then Fin (arctan (y / x))
      else if x < 0 then (if 0 \<le> y then Fin (arctan (y / x) + pi) else Fin (arctan (y / x) - pi))
      else if 0 < y then Fin (pi / 2)
      else if y < 0 then Fin (- pi / 2)
      else Fin 0)"
| "Math_atan2 NaN _ = NaN"
| "Math_atan2 _ NaN = NaN"
| "Math_atan2 (Fin y) PInf = Fin 0"
| "Math_atan2 (Fin y) NInf = (if 0 \<le> y then Fin pi else Fin (- pi))"
| "Math_atan2 PInf (Fin x) = Fin (pi / 2)"
| "Math_atan2 NInf (Fin x) = Fin (- pi / 2)"
| "Math_atan2 PInf PInf = Fin (pi / 4)"
| "Math_atan2 PInf NInf = Fin (3 * pi / 4)"
| "Math_atan2 NInf PInf = Fin (- pi / 4)"
| "Math_atan2 NInf NInf = Fin (- 3 * pi / 4)"

definition calcDistanceBetween :: "Point \<Rightarrow> Point \<Rightarrow> jsnum" where
  "calcDistanceBetween wpt1 wpt2 =
     (let rad = js_div Math_PI (Fin 180);
          lat1 = js_mul (lat wpt1) rad;
          lat2 = js_mul (lat wpt2) rad;
          sinDLat = Math_sin (js_div (js_mul (js_sub (lat wpt2) (lat wpt1)) rad) (Fin 2));
          sinDLon = Math_sin (js_div (js_mul (js_sub (lon wpt2) (lon wpt1)) rad) (Fin 2));
          a = js_add (js_mul sinDLat sinDLat)
                (js_mul (js_mul (js_mul (Math_cos lat1) (Math_cos lat2)) sinDLon) sinDLon);
          c = js_mul (Fin 2) (Math_atan2 (Math_sqrt a) (Math_sqrt (js_sub (Fin 1) a)))
      in js_mul (Fin 6371000) c)"

section \<open>Arrays written by index\<close>

text \<open>
  An array of numbers that the program fills with \<open>a[i] = v\<close> is a list of slots, where
  \<open>None\<close> is an empty slot. Writing at or beyond the length extends the array and
  leaves empty slots in between. A negative index is not an array index: the assignment
  adds an ordinary property to the object and changes neither the elements nor the length.
  Reading an empty slot or reading out of range gives \<open>undefined\<close>.
\<close>

definition array_set :: "'a option list \<Rightarrow> int \<Rightarrow> 'a \<Rightarrow> 'a option list" where
  "array_set xs i v =
     (if i < 0 then xs
      else if nat i < length xs then xs[nat i := Some v]
      else xs @ replicate (nat i - length xs) None @ [Some v])"

definition array_get :: "'a option list \<Rightarrow> int \<Rightarrow> 'a option" where
  "array_get xs i = (if 0 \<le> i \<and> nat i < length xs then xs ! nat i else None)"

text \<open>\<open>undefined\<close> used as a number is \<open>NaN\<close>.\<close>

definition to_number :: "jsnum option \<Rightarrow> jsnum" where
  "to_number x = (case x of None \<Rightarrow> NaN | Some v \<Rightarrow> v)"

section \<open>Route distance and slopes\<close>

record RouteDistance =
  total_f :: jsnum
  cumul :: "jsnum option list"

text \<open>The loop of \<open>calcRouteDistance\<close>; the state is \<open>(totalDistance, cumulDistance)\<close>.\<close>

function distance_loop ::
  "Point list \<Rightarrow> nat \<Rightarrow> jsnum \<times> jsnum option list \<Rightarrow> jsnum \<times> jsnum option list" where
  "distance_loop points i st =
     (if int i < int (length points) - 1 then
        (let totalDistance =
               js_add (fst st) (calcDistanceBetween (points ! i) (points ! (i + 1)));
             cumulDistance = array_set (snd st) (int i) totalDistance
         in distance_loop points (i + 1) (totalDistance, cumulDistance))
      else st)"
  by pat_completeness auto
termination
  by (relation "measure (\<lambda>(points, i, st). length points - i)") auto

declare distance_loop.simps [simp del]

definition calcRouteDistance :: "Point list \<Rightarrow> RouteDistance" where
  "calcRouteDistance points =
     (let (totalDistance, cumulDistance) = distance_loop points 0 (Fin 0, []);
          cumulDistance = array_set cumulDistance (int (length points) - 1) totalDistance
      in \<lparr> total_f = totalDistance, cumul = cumulDistance \<rparr>)"

function slope_loop ::
  "Point list \<Rightarrow> jsnum option list \<Rightarrow> nat \<Rightarrow> jsnum list \<Rightarrow> jsnum list" where
  "slope_loop points cumul_arr i slopes =
     (if int i < int (length points) - 1 then
        (let point = points ! i;
             nextPoint = points ! (i + 1);
             elevationDiff = js_sub (or_zero (ele nextPoint)) (or_zero (ele point));
             distance = js_sub (to_number (array_get cumul_arr (int i + 1)))
                               (to_number (array_get cumul_arr (int i)));
             slope = js_div (js_mul elevationDiff (Fin 100)) distance
         in slope_loop points cumul_arr (i + 1) (slopes @ [slope]))
      else slopes)"
  by pat_completeness auto
termination
  by (relation "measure (\<lambda>(points, c, i, s). length points - i)") auto

declare slope_loop.simps [simp del]

definition calcSlope :: "Point list \<Rightarrow> jsnum option list \<Rightarrow> jsnum list" where
  "calcSlope points cumul_arr = slope_loop points cumul_arr 0 []"

section \<open>Strings and the built-in parsers\<close>

text \<open>\<open>s || d\<close> for \<open>s : string | null\<close>: \<open>null\<close> and the empty string are falsy.\<close>

definition or_str :: "string option \<Rightarrow> string \<Rightarrow> string" where
  "or_str s d = (case s of None \<Rightarrow> d | Some t \<Rightarrow> if t = [] then d else t)"

text \<open>
  \<open>parseFloat\<close>: skip leading white space, then read the longest prefix that is a
  decimal literal (optional sign, then \<open>Infinity\<close>, or digits with an optional fraction
  and an optional exponent); \<open>NaN\<close> when there is no such prefix. A string is the
  sequence of its code units, restricted to the units below 256, so white space is the
  ASCII white space and the no-break space. Inside the range of the doubles the value is
  the exact decimal value, not rounded to the nearest double.
\<close>

definition is_space :: "char \<Rightarrow> bool" where
  "is_space c =
     (c \<in> set [CHR 0x09, CHR 0x0A, CHR 0x0B, CHR 0x0C, CHR 0x0D, CHR 0x20, CHR 0xA0])"

definition is_digit :: "char \<Rightarrow> bool" where
  "is_digit c = (c \<in> set ''0123456789'')"

definition digit_val :: "char \<Rightarrow> nat" where
  "digit_val c = of_char c - 48"

definition digits_val :: "string \<Rightarrow> nat" where
  "digits_val ds = foldl (\<lambda>n c. 10 * n + digit_val c) 0 ds"

definition strip_sign :: "string \<Rightarrow> bool \<times> string" where
  "strip_sign s =
     (case s of
        [] \<Rightarrow> (False, s)
      | c # r \<Rightarrow> if c = CHR ''-'' then (True, r)
                 else if c = CHR ''+'' then (False, r) else (False, s))"

definition exponent_part :: "string \<Rightarrow> int" where
  "exponent_part s =
     (case s of
        [] \<Rightarrow> 0
      | c # r \<Rightarrow>
          if c = CHR ''e'' \<or> c = CHR ''E'' then
            (let (neg, r') = strip_sign r;
                 ds = takeWhile is_digit r'
             in if ds = [] then 0
                else if neg then - int (digits_val ds) else int (digits_val ds))
          else 0)"

definition scale10 :: "real \<Rightarrow> int \<Rightarrow> real" where
  "scale10 m e = (if 0 \<le> e then m * 10 ^ nat e else m / 10 ^ nat (- e))"

text \<open>
  A decimal value as a number: \<open>Infinity\<close> from the midpoint between the largest double
  and \<open>2 ^ 1024\<close> on, zero up to half the smallest positive double, and the value itself
  in between.
\<close>

definition double_range :: "real \<Rightarrow> jsnum" where
  "double_range v =
     (if 2 ^ 1024 - 2 ^ 970 \<le> v then PInf
      else if v \<le> - (2 ^ 1024 - 2 ^ 970) then NInf
      else if \<bar>v\<bar> \<le> 1 / 2 ^ 1075 then Fin 0
      else Fin v)"

definition parseFloat :: "string \<Rightarrow> jsnum" where
  "parseFloat inputString =
     (let trimmed = dropWhile is_space inputString;
          (neg, u) = strip_sign trimmed
      in if take 8 u = ''Infinity'' then (if neg then NInf else PInf)
         else
           (let ip = takeWhile is_digit u;
                r1 = dropWhile is_digit u;
                has_dot = (case r1 of [] \<Rightarrow> False | c # _ \<Rightarrow> c = CHR ''.'');
                fp = (if has_dot then takeWhile is_digit (tl r1) else []);
                r2 = (if has_dot then dropWhile is_digit (tl r1) else r1)
            in if ip = [] \<and> fp = [] then NaN
               else
                 (let m = real (digits_val (ip @ fp)) / 10 ^ length fp;
                      v = scale10 m (exponent_part r2)
                  in double_range (if neg then - v else v))))"

text \<open>
  \<open>new Date(s)\<close> for a string \<open>s\<close> never throws: the new object holds
  \<open>Date.parse(s)\<close>, which is \<open>NaN\<close> when the text is not recognised. Which texts
  \<open>Date.parse\<close> recognises beyond the standard format is left to the engine, so it is
  a parameter of everything that builds a \<open>Date\<close>.
\<close>

definition new_Date :: "(string \<Rightarrow> jsnum) \<Rightarrow> string \<Rightarrow> Date" where
  "new_Date date_parse s = Date (date_parse s)"

text \<open>
  One instance of \<open>Date.parse\<close>, for running examples: it recognises the UTC form
  \<open>YYYY-MM-DDTHH:mm:ssZ\<close> of the standard format only, and gives milliseconds
  since the epoch.
\<close>

definition days_from_civil :: "int \<Rightarrow> int \<Rightarrow> int \<Rightarrow> int" where
  "days_from_civil y m d =
     (let y' = (if m \<le> 2 then y - 1 else y);
          era = y' div 400;
          yoe = y' - era * 400;
          mp = (m + 9) mod 12;
          doy = (153 * mp + 2) div 5 + d - 1;
          doe = yoe * 365 + yoe div 4 - yoe div 100 + doy
      in era * 146097 + doe - 719468)"

definition days_in_month :: "int \<Rightarrow> int \<Rightarrow> int" where
  "days_in_month y m =
     (if m = 2 then (if y mod 4 = 0 \<and> (y mod 100 \<noteq> 0 \<or> y mod 400 = 0) then 29 else 28)
      else if m = 4 \<or> m = 6 \<or> m = 9 \<or> m = 11 then 30 else 31)"

definition utc_date_parse :: "string \<Rightarrow> jsnum" where
  "utc_date_parse s =
     (let field = (\<lambda>i n. take n (drop i s));
          num = (\<lambda>i n. int (digits_val (field i n)));
          y = num 0 4; mo = num 5 2; d = num 8 2; h = num 11 2; mi = num 14 2; sec = num 17 2
      in if length s = 20
            \<and> list_all is_digit (field 0 4 @ field 5 2 @ field 8 2 @ field 11 2 @ field 14 2 @ field 17 2)
            \<and> field 4 1 = ''-'' \<and> field 7 1 = ''-'' \<and> field 10 1 = ''T''
            \<and> field 13 1 = '':'' \<and> field 16 1 = '':'' \<and> field 19 1 = ''Z''
            \<and> 1 \<le> mo \<and> mo \<le> 12 \<and> 1 \<le> d \<and> d \<le> days_in_month y mo
            \<and> h \<le> 23 \<and> mi \<le> 59 \<and> sec \<le> 59
         then Fin (real_of_int ((((days_from_civil y mo d * 24 + h) * 60 + mi) * 60 + sec) * 1000))
         else NaN)"

section \<open>The document tree\<close>

text \<open>
  What the program reads from an element of the parsed XML document: its tag name, its
  attributes, its \<open>innerHTML\<close> (the markup of its content, as the tree library
  serialises it) and its child elements in document order. Tag names carry no namespace
  prefix, so a type selector matches exactly the elements with that tag name.
\<close>

datatype Element =
  Element (tagName: string) (attributes: "(string \<times> string) list") (innerHTML: string)
    (children: "Element list")

datatype Document = Document (documentElement: Element)

definition getAttribute :: "Element \<Rightarrow> string \<Rightarrow> string option" where
  "getAttribute e n = map_of (attributes e) n"

text \<open>All elements below a node, in document order.\<close>

fun descendants :: "Element \<Rightarrow> Element list" where
  "descendants (Element t a h cs) = concat (map (\<lambda>c. c # descendants c) cs)"

definition querySelectorAll :: "Element \<Rightarrow> string \<Rightarrow> Element list" where
  "querySelectorAll node needle = filter (\<lambda>e. tagName e = needle) (descendants node)"

definition querySelector :: "Element \<Rightarrow> string \<Rightarrow> Element option" where
  "querySelector node needle =
     (case querySelectorAll node needle of [] \<Rightarrow> None | e # _ \<Rightarrow> Some e)"

text \<open>On the document the search includes the root element.\<close>

definition doc_querySelectorAll :: "Document \<Rightarrow> string \<Rightarrow> Element list" where
  "doc_querySelectorAll doc needle =
     filter (\<lambda>e. tagName e = needle) (documentElement doc # descendants (documentElement doc))"

definition doc_querySelector :: "Document \<Rightarrow> string \<Rightarrow> Element option" where
  "doc_querySelector doc needle =
     (case doc_querySelectorAll doc needle of [] \<Rightarrow> None | e # _ \<Rightarrow> Some e)"

section \<open>Field extraction\<close>

text \<open>
  \<open>getElementValue\<close>: every element has an \<open>innerHTML\<close>, so the fallback to
  \<open>data\<close> in the source is never taken.
\<close>

definition getElementValue :: "Element \<Rightarrow> string \<Rightarrow> string option" where
  "getElementValue parent needle =
     (case querySelector parent needle of
        Some elem \<Rightarrow> Some (innerHTML elem)
      | None \<Rightarrow> None)"

text \<open>The loop of \<open>queryDirectSelector\<close> over the direct children; the state is \<open>finalElem\<close>.\<close>

fun directChilds_loop :: "Element list \<Rightarrow> string \<Rightarrow> Element option \<Rightarrow> Element option" where
  "directChilds_loop [] needle finalElem = finalElem"
| "directChilds_loop (elem # rest) needle finalElem =
     directChilds_loop rest needle (if tagName elem = needle then Some elem else finalElem)"

text \<open>The result is \<open>None\<close> where the source returns \<open>undefined\<close> (\<open>elements[0]\<close> of an empty list).\<close>

definition queryDirectSelector :: "Element \<Rightarrow> string \<Rightarrow> Element option" where
  "queryDirectSelector parent needle =
     (let elements = querySelectorAll parent needle;
          finalElem = (case elements of [] \<Rightarrow> None | e # _ \<Rightarrow> Some e)
      in if length elements > 1 then directChilds_loop (children parent) needle finalElem
         else finalElem)"

section \<open>The parsed model\<close>

record Link =
  href :: string
  link_text :: "string option"
  link_type :: "string option"

record AuthorEmail =
  email_id :: string
  email_domain :: string

record Author =
  author_name :: "string option"
  author_email :: AuthorEmail
  author_link :: Link

record Metadata =
  meta_name :: "string option"
  meta_desc :: "string option"
  meta_time :: "string option"
  meta_author :: Author
  meta_link :: Link

text \<open>\<open>Route\<close> and \<open>Track\<close> are the same structural type.\<close>

record Route =
  rte_name :: "string option"
  rte_cmt :: "string option"
  rte_desc :: "string option"
  rte_src :: "string option"
  rte_number :: "string option"
  rte_type :: "string option"
  rte_link :: Link
  distance :: RouteDistance
  elevation :: ElevationStats
  slopes :: "jsnum list"
  points :: "Point list"

type_synonym Track = Route

record GPXParser =
  xmlSource :: Document
  metadata :: Metadata
  waypoints :: "Point list"
  routes :: "Route list"
  tracks :: "Track list"

text \<open>The only failure of the constructor: the tree library rejects the text.\<close>

datatype error = XmlError

section \<open>Parsing\<close>

text \<open>
  \<open>linkElem ? {href, text, type} : {href: "", text: "", type: ""}\<close>, which the source
  writes out at each of its four uses.
\<close>

definition link_of :: "Element option \<Rightarrow> Link" where
  "link_of linkElem =
     (case linkElem of
        Some l \<Rightarrow> \<lparr> href = or_str (getAttribute l ''href'') '''',
                     link_text = getElementValue l ''text'',
                     link_type = getElementValue l ''type'' \<rparr>
      | None \<Rightarrow> \<lparr> href = '''', link_text = Some '''', link_type = Some '''' \<rparr>)"

definition parseAuthor :: "Element option \<Rightarrow> Author" where
  "parseAuthor authorElem =
     (case authorElem of
        None \<Rightarrow>
          \<lparr> author_name = Some '''',
            author_email = \<lparr> email_id = '''', email_domain = '''' \<rparr>,
            author_link = \<lparr> href = '''', link_text = Some '''', link_type = Some '''' \<rparr> \<rparr>
      | Some a \<Rightarrow>
          (let authorLinkElem = querySelector a ''link'';
               authorEmailElem = querySelector a ''email''
           in \<lparr> author_name = getElementValue a ''name'',
                author_email =
                  (case authorEmailElem of
                     Some e \<Rightarrow> \<lparr> email_id = or_str (getAttribute e ''id'') '''',
                                  email_domain = or_str (getAttribute e ''domain'') '''' \<rparr>
                   | None \<Rightarrow> \<lparr> email_id = '''', email_domain = '''' \<rparr>),
                author_link = link_of authorLinkElem \<rparr>))"

definition parseMetadata :: "Element option \<Rightarrow> Metadata" where
  "parseMetadata md =
     (case md of
        None \<Rightarrow>
          \<lparr> meta_name = Some '''', meta_desc = Some '''', meta_time = Some '''',
            meta_author =
              \<lparr> author_name = Some '''',
                author_email = \<lparr> email_id = '''', email_domain = '''' \<rparr>,
                author_link = \<lparr> href = '''', link_text = Some '''', link_type = Some '''' \<rparr> \<rparr>,
            meta_link = \<lparr> href = '''', link_text = Some '''', link_type = Some '''' \<rparr> \<rparr>
      | Some m \<Rightarrow>
          (let linkElem = queryDirectSelector m ''link'';
               link = link_of linkElem
           in \<lparr> meta_name = getElementValue m ''name'',
                meta_desc = getElementValue m ''desc'',
                meta_time = getElementValue m ''time'',
                meta_author = parseAuthor (querySelector m ''author''),
                meta_link = link \<rparr>))"

text \<open>The body of the loop over the \<open>wpt\<close> elements.\<close>

definition parse_wpt :: "(string \<Rightarrow> jsnum) \<Rightarrow> Element \<Rightarrow> Point" where
  "parse_wpt date_parse wpt =
     (let ele_v = parseFloat (or_str (getElementValue wpt ''ele'') ''0'');
          time_v = getElementValue wpt ''time''
      in \<lparr> lat = parseFloat (or_str (getAttribute wpt ''lat'') ''''),
           lon = parseFloat (or_str (getAttribute wpt ''lon'') ''''),
           ele = (if isNaN ele_v then None else Some ele_v),
           name = Present (getElementValue wpt ''name''),
           sym_f = Present (getElementValue wpt ''sym''),
           cmt = Present (getElementValue wpt ''cmt''),
           desc = Present (getElementValue wpt ''desc''),
           time = Present (case time_v of
                             None \<Rightarrow> None
                           | Some t \<Rightarrow> if t = [] then None else Some (new_Date date_parse t)) \<rparr>)"

text \<open>The body of the loop over the \<open>rtept\<close> elements of a route.\<close>

definition parse_rtept :: "(string \<Rightarrow> jsnum) \<Rightarrow> Element \<Rightarrow> Point" where
  "parse_rtept date_parse rtept =
     (let floatValue = parseFloat (or_str (getElementValue rtept ''ele'') ''0'');
          time_v = getElementValue rtept ''time''
      in \<lparr> lat = parseFloat (or_str (getAttribute rtept ''lat'') ''0''),
           lon = parseFloat (or_str (getAttribute rtept ''lon'') ''0''),
           ele = (if isNaN floatValue then None else Some floatValue),
           name = Absent, sym_f = Absent, cmt = Absent, desc = Absent,
           time = Present (case time_v of
                             None \<Rightarrow> None
                           | Some t \<Rightarrow> if t = [] then None else Some (new_Date date_parse t)) \<rparr>)"

text \<open>The body of the loop over the \<open>trkpt\<close> elements of a track.\<close>

definition parse_trkpt :: "(string \<Rightarrow> jsnum) \<Rightarrow> Element \<Rightarrow> Point" where
  "parse_trkpt date_parse trkpt =
     (let floatValue = parseFloat (or_str (getElementValue trkpt ''ele'') ''0'');
          time_v = getElementValue trkpt ''time''
      in \<lparr> lat = parseFloat (or_str (getAttribute trkpt ''lat'') ''0''),
           lon = parseFloat (or_str (getAttribute trkpt ''lon'') ''0''),
           ele = (if isNaN floatValue then None else Some floatValue),
           name = Absent, sym_f = Absent, cmt = Absent, desc = Absent,
           time = Present (case time_v of
                             None \<Rightarrow> None
                           | Some t \<Rightarrow> if t = [] then None else Some (new_Date date_parse t)) \<rparr>)"

text \<open>A loop that pushes one parsed value per element onto an array.\<close>

fun push_loop :: "(Element \<Rightarrow> 'a) \<Rightarrow> Element list \<Rightarrow> 'a list \<Rightarrow> 'a list" where
  "push_loop body [] acc = acc"
| "push_loop body (e # es) acc = push_loop body es (acc @ [body e])"

definition parse_rte :: "(string \<Rightarrow> jsnum) \<Rightarrow> Element \<Rightarrow> Route" where
  "parse_rte date_parse rte =
     (let type_v = queryDirectSelector rte ''type'';
          linkElem = querySelector rte ''link'';
          link = link_of linkElem;
          pts = push_loop (parse_rtept date_parse) (querySelectorAll rte ''rtept'') [];
          dist = calcRouteDistance pts
      in \<lparr> rte_name = getElementValue rte ''name'',
           rte_cmt = getElementValue rte ''cmt'',
           rte_desc = getElementValue rte ''desc'',
           rte_src = getElementValue rte ''src'',
           rte_number = getElementValue rte ''number'',
           rte_type = (case type_v of Some t \<Rightarrow> Some (innerHTML t) | None \<Rightarrow> None),
           rte_link = link,
           distance = dist,
           elevation = calcElevationStats pts,
           slopes = calcSlope pts (cumul dist),
           points = pts \<rparr>)"

definition parse_trk :: "(string \<Rightarrow> jsnum) \<Rightarrow> Element \<Rightarrow> Track" where
  "parse_trk date_parse trk =
     (let type_v = queryDirectSelector trk ''type'';
          linkElem = querySelector trk ''link'';
          pts = push_loop (parse_trkpt date_parse) (querySelectorAll trk ''trkpt'') [];
          dist = calcRouteDistance pts
      in \<lparr> rte_name = getElementValue trk ''name'',
           rte_cmt = getElementValue trk ''cmt'',
           rte_desc = getElementValue trk ''desc'',
           rte_src = getElementValue trk ''src'',
           rte_number = getElementValue trk ''number'',
           rte_type = (case type_v of Some t \<Rightarrow> Some (innerHTML t) | None \<Rightarrow> None),
           rte_link = link_of linkElem,
           distance = dist,
           elevation = calcElevationStats pts,
           slopes = calcSlope pts (cumul dist),
           points = pts \<rparr>)"

text \<open>The constructor once the document tree exists; nothing in it can fail.\<close>

definition build :: "(string \<Rightarrow> jsnum) \<Rightarrow> Document \<Rightarrow> GPXParser" where
  "build date_parse doc =
     \<lparr> xmlSource = doc,
       metadata = parseMetadata (doc_querySelector doc ''metadata''),
       waypoints = push_loop (parse_wpt date_parse) (doc_querySelectorAll doc ''wpt'') [],
       routes = push_loop (parse_rte date_parse) (doc_querySelectorAll doc ''rte'') [],
       tracks = push_loop (parse_trk date_parse) (doc_querySelectorAll doc ''trk'') [] \<rparr>"

text \<open>
  The constructor. \<open>parseXml\<close> hands the text to the tree library, which is a parameter:
  \<open>None\<close> stands for the exception it throws on text it rejects.
\<close>

definition GPXParser_constructor ::
  "(string \<Rightarrow> Document option) \<Rightarrow> (string \<Rightarrow> jsnum) \<Rightarrow> string \<Rightarrow> error + GPXParser" where
  "GPXParser_constructor parseXml date_parse gpxstring =
     (case parseXml gpxstring of
        None \<Rightarrow> Inl XmlError
      | Some doc \<Rightarrow> Inr (build date_parse doc))"

section \<open>Projection to GeoJSON\<close>

record LineProps =
  lp_name :: "string option"
  lp_cmt :: "string option"
  lp_desc :: "string option"
  lp_src :: "string option"
  lp_number :: "string option"
  lp_link :: Link
  lp_type :: "string option"

record PointProps =
  pp_name :: "string option optional"
  pp_sym :: "string option optional"
  pp_cmt :: "string option optional"
  pp_desc :: "string option optional"

text \<open>
  A feature is \<open>{type: "Feature", geometry: {type, coordinates}, properties}\<close>; the
  constructor stands for the geometry type, \<open>"LineString"\<close> or \<open>"Point"\<close>.
\<close>

datatype Feature =
  LineStringFeature (line_coordinates: "(jsnum \<times> jsnum \<times> jsnum) list") (line_properties: LineProps)
| PointFeature (point_coordinates: "jsnum \<times> jsnum \<times> jsnum") (point_properties: PointProps)

record GeoJSON =
  gj_type :: string
  features :: "Feature list"
  properties :: Metadata

fun coordinates_loop ::
  "Point list \<Rightarrow> (jsnum \<times> jsnum \<times> jsnum) list \<Rightarrow> (jsnum \<times> jsnum \<times> jsnum) list" where
  "coordinates_loop [] coordinates = coordinates"
| "coordinates_loop (pt # pts) coordinates =
     coordinates_loop pts (coordinates @ [(lon pt, lat pt, or_zero (ele pt))])"

definition line_feature :: "Route \<Rightarrow> Feature" where
  "line_feature track =
     LineStringFeature (coordinates_loop (points track) [])
       \<lparr> lp_name = rte_name track, lp_cmt = rte_cmt track, lp_desc = rte_desc track,
         lp_src = rte_src track, lp_number = rte_number track, lp_link = rte_link track,
         lp_type = rte_type track \<rparr>"

fun tracks_loop :: "Track list \<Rightarrow> Feature list \<Rightarrow> Feature list" where
  "tracks_loop [] fs = fs"
| "tracks_loop (track # rest) fs = tracks_loop rest (fs @ [line_feature track])"

fun routes_loop :: "Route list \<Rightarrow> Feature list \<Rightarrow> Feature list" where
  "routes_loop [] fs = fs"
| "routes_loop (track # rest) fs = routes_loop rest (fs @ [line_feature track])"

definition point_feature :: "Point \<Rightarrow> Feature" where
  "point_feature pt =
     PointFeature (lon pt, lat pt, or_zero (ele pt))
       \<lparr> pp_name = name pt, pp_sym = sym_f pt, pp_cmt = cmt pt, pp_desc = desc pt \<rparr>"

fun waypoints_loop :: "Point list \<Rightarrow> Feature list \<Rightarrow> Feature list" where
  "waypoints_loop [] fs = fs"
| "waypoints_loop (pt # rest) fs = waypoints_loop rest (fs @ [point_feature pt])"

definition toGeoJSON :: "GPXParser \<Rightarrow> GeoJSON" where
  "toGeoJSON g =
     (let fs = tracks_loop (tracks g) [];
          fs = routes_loop (routes g) fs;
          fs = waypoints_loop (waypoints g) fs
      in \<lparr> gj_type = ''FeatureCollection'',
           features = fs,
           properties =
             \<lparr> meta_name = meta_name (metadata g),
               meta_desc = meta_desc (metadata g),
               meta_time = meta_time (metadata g),
               meta_author = meta_author (metadata g),
               meta_link = meta_link (metadata g) \<rparr> \<rparr>)"

section \<open>Notions used to state the properties\<close>

text \<open>A number that is neither \<open>NaN\<close> nor infinite; a point with such coordinates.\<close>

definition finite_num :: "jsnum \<Rightarrow> bool" where
  "finite_num x = (case x of Fin r \<Rightarrow> True | _ \<Rightarrow> False)"

definition finite_point :: "Point \<Rightarrow> bool" where
  "finite_point p = (finite_num (lat p) \<and> finite_num (lon p))"

text \<open>The non-null elevations of a point sequence, when they are finite numbers.\<close>

fun ele_values :: "Point list \<Rightarrow> real list" where
  "ele_values [] = []"
| "ele_values (p # ps) =
     (case ele p of Some (Fin r) \<Rightarrow> r # ele_values ps | _ \<Rightarrow> ele_values ps)"

definition finite_eles :: "Point list \<Rightarrow> bool" where
  "finite_eles pts = list_all (\<lambda>p. case ele p of None \<Rightarrow> True | Some v \<Rightarrow> finite_num v) pts"

text \<open>The ranges that the accumulators of the elevation loop stay in.\<close>

definition nonneg :: "jsnum \<Rightarrow> bool" where
  "nonneg x = (case x of Fin a \<Rightarrow> 0 \<le> a | PInf \<Rightarrow> True | _ \<Rightarrow> False)"

definition nonpos :: "jsnum \<Rightarrow> bool" where
  "nonpos x = (case x of Fin a \<Rightarrow> a \<le> 0 | NInf \<Rightarrow> True | _ \<Rightarrow> False)"

definition nonneg_or_nan :: "jsnum \<Rightarrow> bool" where
  "nonneg_or_nan x = (case x of NaN \<Rightarrow> True | Fin r \<Rightarrow> 0 \<le> r | PInf \<Rightarrow> True | NInf \<Rightarrow> False)"

text \<open>
  \<open>calcDistanceBetween\<close> in two parts: the haversine term \<open>a\<close> that its first lines
  compute, and the distance that its last two lines compute from \<open>a\<close>.
\<close>

definition haversine_a :: "Point \<Rightarrow> Point \<Rightarrow> jsnum" where
  "haversine_a wpt1 wpt2 =
     (let rad = js_div Math_PI (Fin 180);
          lat1 = js_mul (lat wpt1) rad;
          lat2 = js_mul (lat wpt2) rad;
          sinDLat = Math_sin (js_div (js_mul (js_sub (lat wpt2) (lat wpt1)) rad) (Fin 2));
          sinDLon = Math_sin (js_div (js_mul (js_sub (lon wpt2) (lon wpt1)) rad) (Fin 2))
      in js_add (js_mul sinDLat sinDLat)
           (js_mul (js_mul (js_mul (Math_cos lat1) (Math_cos lat2)) sinDLon) sinDLon))"

definition distance_of_a :: "jsnum \<Rightarrow> jsnum" where
  "distance_of_a a =
     (let c = js_mul (Fin 2) (Math_atan2 (Math_sqrt a) (Math_sqrt (js_sub (Fin 1) a)))
      in js_mul (Fin 6371000) c)"

text \<open>The distances of the adjacent pairs of a point sequence.\<close>

fun segment_distances :: "Point list \<Rightarrow> jsnum list" where
  "segment_distances (p # q # ps) = calcDistanceBetween p q # segment_distances (q # ps)"
| "segment_distances _ = []"

text \<open>The running totals of the segment distances, started at \<open>t\<close>.\<close>

fun running :: "jsnum \<Rightarrow> Point list \<Rightarrow> jsnum list" where
  "running t (p # q # ps) =
     js_add t (calcDistanceBetween p q) # running (js_add t (calcDistanceBetween p q)) (q # ps)"
| "running t _ = []"

definition dist_total :: "Point list \<Rightarrow> jsnum" where
  "dist_total ps = last (Fin 0 # running (Fin 0) ps)"

text \<open>
  An array is non-decreasing when it has no empty slot and every entry is \<open>\<le>\<close> the next
  one (which no \<open>NaN\<close> entry is); it never decreases when it has no empty slot and no
  entry is \<open><\<close> the one before it.
\<close>

fun non_decreasing :: "jsnum option list \<Rightarrow> bool" where
  "non_decreasing (Some a # Some b # xs) = (js_le a b \<and> non_decreasing (Some b # xs))"
| "non_decreasing [Some a] = True"
| "non_decreasing [] = True"
| "non_decreasing _ = False"

fun never_decreases :: "jsnum option list \<Rightarrow> bool" where
  "never_decreases (Some a # Some b # xs) = (\<not> js_lt b a \<and> never_decreases (Some b # xs))"
| "never_decreases [Some a] = True"
| "never_decreases [] = True"
| "never_decreases _ = False"

text \<open>The immediate children of a node with a given tag name.\<close>

definition direct_matches :: "Element \<Rightarrow> string \<Rightarrow> Element list" where
  "direct_matches node needle = filter (\<lambda>c. tagName c = needle) (children node)"

text \<open>
  The GeoJSON projection as the specification words it: one \<open>[lon, lat, ele]\<close> triplet
  per point with a null elevation replaced by 0, one LineString feature per track, then
  one per route, then one Point feature per waypoint.
\<close>

definition spec_triplet :: "Point \<Rightarrow> jsnum \<times> jsnum \<times> jsnum" where
  "spec_triplet pt = (lon pt, lat pt, (case ele pt of None \<Rightarrow> Fin 0 | Some e \<Rightarrow> e))"

definition spec_line_feature :: "Route \<Rightarrow> Feature" where
  "spec_line_feature r =
     LineStringFeature (map spec_triplet (points r))
       \<lparr> lp_name = rte_name r, lp_cmt = rte_cmt r, lp_desc = rte_desc r, lp_src = rte_src r,
         lp_number = rte_number r, lp_link = rte_link r, lp_type = rte_type r \<rparr>"

definition spec_point_feature :: "Point \<Rightarrow> Feature" where
  "spec_point_feature pt =
     PointFeature (spec_triplet pt)
       \<lparr> pp_name = name pt, pp_sym = sym_f pt, pp_cmt = cmt pt, pp_desc = desc pt \<rparr>"

definition spec_features :: "GPXParser \<Rightarrow> Feature list" where
  "spec_features g =
     map spec_line_feature (tracks g) @ map spec_line_feature (routes g)
       @ map spec_point_feature (waypoints g)"

text \<open>The \<open>ele\<close> field as a function of what \<open>getElementValue\<close> finds for \<open>ele\<close>.\<close>

definition ele_of_text :: "string option \<Rightarrow> jsnum option" where
  "ele_of_text v =
     (case v of
        None \<Rightarrow> Some (Fin 0)
      | Some t \<Rightarrow> if t = [] then Some (Fin 0)
                  else if parseFloat t = NaN then None else Some (parseFloat t))"

text \<open>A point whose elevation is not the number \<open>NaN\<close>.\<close>

definition no_nan_ele :: "Point \<Rightarrow> bool" where
  "no_nan_ele pt = (ele pt \<noteq> Some NaN)"

section \<open>Sample inputs\<close>

definition sample_point :: "jsnum \<Rightarrow> jsnum \<Rightarrow> jsnum option \<Rightarrow> Point" where
  "sample_point la lo e =
     \<lparr> lat = la, lon = lo, ele = e, name = Absent, sym_f = Absent, cmt = Absent,
       desc = Absent, time = Absent \<rparr>"

text \<open>An element whose content is text only.\<close>

definition leaf :: "string \<Rightarrow> string \<Rightarrow> Element" where
  "leaf tag txt = Element tag [] txt []"

text \<open>An element with attributes and child elements; its markup is written out from them.\<close>

definition markup :: "Element \<Rightarrow> string" where
  "markup e =
     ''<'' @ tagName e
       @ concat (map (\<lambda>(k, v). '' '' @ k @ ''='' @ [CHR 0x22] @ v @ [CHR 0x22]) (attributes e))
       @ ''>'' @ innerHTML e @ ''</'' @ tagName e @ ''>''"

definition mk_elem :: "string \<Rightarrow> (string \<times> string) list \<Rightarrow> Element list \<Rightarrow> Element" where
  "mk_elem tag attrs kids = Element tag attrs (concat (map markup kids)) kids"

text \<open>A waypoint without an \<open>ele\<close> child, and one whose \<open>ele\<close> child holds a given text.\<close>

definition wpt_no_ele :: Element where
  "wpt_no_ele = mk_elem ''wpt'' [(''lat'', ''47.25''), (''lon'', ''-1.5'')] [leaf ''name'' ''A'']"

definition wpt_with_ele :: "string \<Rightarrow> Element" where
  "wpt_with_ele txt = mk_elem ''wpt'' [(''lat'', ''47.25''), (''lon'', ''-1.5'')] [leaf ''ele'' txt]"

text \<open>Route and track points with a given \<open>lat\<close> attribute, and without one.\<close>

definition segpt_with_lat :: "string \<Rightarrow> string \<Rightarrow> Element" where
  "segpt_with_lat tag txt = mk_elem tag [(''lat'', txt), (''lon'', ''2'')] []"

definition segpt_no_lat :: "string \<Rightarrow> Element" where
  "segpt_no_lat tag = mk_elem tag [(''lon'', ''2'')] []"

text \<open>A document with one waypoint whose \<open>time\<close> child holds a given text.\<close>

definition wpt_with_time :: "string \<Rightarrow> Element" where
  "wpt_with_time txt = mk_elem ''wpt'' [(''lat'', ''1''), (''lon'', ''2'')] [leaf ''time'' txt]"

definition gpx_with_time :: "string \<Rightarrow> Document" where
  "gpx_with_time txt = Document (mk_elem ''gpx'' [] [wpt_with_time txt])"

text \<open>A tree library that knows one text: the markup of the document above.\<close>

definition one_text_library :: "string \<Rightarrow> string \<Rightarrow> Document option" where
  "one_text_library txt s =
     (if s = markup (documentElement (gpx_with_time txt)) then Some (gpx_with_time txt) else None)"

text \<open>
  Routes for \<open>queryDirectSelector\<close>: \<open>type\<close> only inside two nested elements; \<open>type\<close>
  inside \<open>link\<close> and as a direct child; one \<open>type\<close>; none.
\<close>

definition rte_nested_types :: Element where
  "rte_nested_types =
     mk_elem ''rte'' []
       [mk_elem ''link'' [(''href'', ''http://example.com'')] [leaf ''type'' ''Web''],
        mk_elem ''extensions'' [] [leaf ''type'' ''x'']]"

definition rte_two_types :: Element where
  "rte_two_types =
     mk_elem ''rte'' []
       [mk_elem ''link'' [(''href'', ''http://example.com'')] [leaf ''type'' ''Web''],
        leaf ''type'' ''MTB'']"

definition rte_one_type :: Element where
  "rte_one_type = mk_elem ''rte'' [] [leaf ''type'' ''MTB'']"

definition rte_no_type :: Element where
  "rte_no_type = mk_elem ''rte'' [] [leaf ''name'' ''R'']"

text \<open>
  A document with one track of two points, the second without an \<open>ele\<close> child, and one
  waypoint.
\<close>

definition sample_trkpt_ele :: Element where
  "sample_trkpt_ele = mk_elem ''trkpt'' [(''lat'', ''1''), (''lon'', ''2'')] [leaf ''ele'' ''5'']"

definition sample_trkpt_no_ele :: Element where
  "sample_trkpt_no_ele = mk_elem ''trkpt'' [(''lat'', ''3''), (''lon'', ''4'')] []"

definition sample_trk :: Element where
  "sample_trk = mk_elem ''trk'' [] [leaf ''name'' ''T'', sample_trkpt_ele, sample_trkpt_no_ele]"

definition sample_wpt :: Element where
  "sample_wpt = mk_elem ''wpt'' [(''lat'', ''1''), (''lon'', ''2'')] [leaf ''ele'' ''5'']"

definition sample_gpx :: Document where
  "sample_gpx = Document (mk_elem ''gpx'' [] [sample_wpt, sample_trk])"

section \<open>Properties of the elevation statistics\<close>

lemma or_zero_Fin: "or_zero (Some (Fin r)) = Fin r"
  by (simp add: or_zero_def truthy_def)

lemma or_null_abs_pos: "or_null (js_abs x) = Some v \<Longrightarrow> js_gt v (Fin 0)"
  by (cases x) (auto simp: or_null_def truthy_def js_gt_def split: if_splits)

lemma finite_numE: "finite_num x \<Longrightarrow> \<exists>r. x = Fin r"
  by (cases x) (simp_all add: finite_num_def)

lemma fst_collect_loop_finite:
  "finite_eles pts \<Longrightarrow>
   fst (collect_loop pts (map Fin xs, s)) = map Fin (xs @ ele_values pts)"
proof (induction pts arbitrary: xs s)
  case Nil
  then show ?case by simp
next
  case (Cons p ps)
  then have fin: "finite_eles ps" by (simp add: finite_eles_def)
  show ?case
  proof (cases "ele p")
    case None
    then show ?thesis using Cons.IH [OF fin] by simp
  next
    case (Some v)
    then obtain r where v: "v = Fin r"
      using Cons.prems finite_numE by (auto simp: finite_eles_def)
    have "collect_loop (p # ps) (map Fin xs, s) =
            collect_loop ps (map Fin (xs @ [r]), js_add s (Fin r))"
      using Some v by (simp add: or_zero_Fin Let_def)
    then show ?thesis using Cons.IH [OF fin, of "xs @ [r]"] Some v by simp
  qed
qed

lemma snd_collect_loop_zero:
  "\<forall>p \<in> set pts. ele p = None \<or> ele p = Some (Fin 0) \<Longrightarrow>
   snd (collect_loop pts (xs, Fin 0)) = Fin 0"
proof (induction pts arbitrary: xs)
  case Nil
  then show ?case by simp
next
  case (Cons p ps)
  then show ?case by (cases "ele p") (auto simp: or_zero_def truthy_def Let_def)
qed

lemma max_loop_Fin: "max_loop (Fin h) (map Fin rs) = Fin (fold max rs h)"
  by (induction rs arbitrary: h) (auto simp: js_gt_def max_def)

lemma min_loop_Fin: "min_loop (Fin h) (map Fin rs) = Fin (fold min rs h)"
  by (induction rs arbitrary: h) (auto simp: min_def)

lemma Math_max_Fin: "rs \<noteq> [] \<Longrightarrow> Math_max (map Fin rs) = Fin (Max (set rs))"
proof (cases rs)
  case Nil
  assume "rs \<noteq> []" with Nil show ?thesis by simp
next
  case (Cons r rs')
  have "Math_max (map Fin rs) = max_loop (Fin r) (map Fin rs')"
    using Cons by (simp add: Math_max_def js_gt_def)
  moreover have "fold max rs' r = Max (set (r # rs'))"
    by (rule Max.set_eq_fold [symmetric])
  ultimately show ?thesis using Cons by (simp only: max_loop_Fin)
qed

lemma Math_min_Fin: "rs \<noteq> [] \<Longrightarrow> Math_min (map Fin rs) = Fin (Min (set rs))"
proof (cases rs)
  case Nil
  assume "rs \<noteq> []" with Nil show ?thesis by simp
next
  case (Cons r rs')
  have "Math_min (map Fin rs) = min_loop (Fin r) (map Fin rs')"
    using Cons by (simp add: Math_min_def)
  moreover have "fold min rs' r = Min (set (r # rs'))"
    by (rule Min.set_eq_fold [symmetric])
  ultimately show ?thesis using Cons by (simp only: min_loop_Fin)
qed

text \<open>\<open>dp\<close> is never \<open>NaN\<close> and never negative; \<open>dm\<close> is never \<open>NaN\<close> and never positive.\<close>

lemma nonneg_add: "nonneg x \<Longrightarrow> js_gt d (Fin 0) \<Longrightarrow> nonneg (js_add x d)"
  by (cases x; cases d) (auto simp: nonneg_def js_gt_def)

lemma nonpos_add: "nonpos x \<Longrightarrow> js_lt d (Fin 0) \<Longrightarrow> nonpos (js_add x d)"
  by (cases x; cases d) (auto simp: nonpos_def)

lemma delta_step_inv:
  "nonneg (fst acc) \<Longrightarrow> nonpos (snd acc) \<Longrightarrow>
   nonneg (fst (delta_step p q acc)) \<and> nonpos (snd (delta_step p q acc))"
  by (simp add: delta_step_def Let_def nonneg_add nonpos_add)

lemma delta_loop_inv:
  "nonneg (fst acc) \<Longrightarrow> nonpos (snd acc) \<Longrightarrow>
   nonneg (fst (delta_loop pts acc)) \<and> nonpos (snd (delta_loop pts acc))"
proof (induction pts acc rule: delta_loop.induct)
  case (1 p q ps acc)
  then show ?case using delta_step_inv [of acc p q] by simp
qed simp_all

lemma or_null_abs_nonneg: "nonneg x \<Longrightarrow> (or_null (js_abs x) = None) = (x = Fin 0)"
  by (cases x) (auto simp: nonneg_def or_null_def truthy_def)

lemma or_null_abs_nonpos: "nonpos x \<Longrightarrow> (or_null (js_abs x) = None) = (x = Fin 0)"
  by (cases x) (auto simp: nonpos_def or_null_def truthy_def)

lemma pos_null_iff:
  "(pos_f (calcElevationStats pts) = None) = (fst (delta_loop pts (Fin 0, Fin 0)) = Fin 0)"
proof -
  have "nonneg (fst (delta_loop pts (Fin 0, Fin 0)))"
    using delta_loop_inv [of "(Fin 0, Fin 0)" pts] by (simp add: nonneg_def nonpos_def)
  then show ?thesis
    by (cases "delta_loop pts (Fin 0, Fin 0)"; cases "collect_loop pts ([], Fin 0)")
       (simp add: calcElevationStats_def or_null_abs_nonneg)
qed

lemma neg_null_iff:
  "(neg_f (calcElevationStats pts) = None) = (snd (delta_loop pts (Fin 0, Fin 0)) = Fin 0)"
proof -
  have "nonpos (snd (delta_loop pts (Fin 0, Fin 0)))"
    using delta_loop_inv [of "(Fin 0, Fin 0)" pts] by (simp add: nonneg_def nonpos_def)
  then show ?thesis
    by (cases "delta_loop pts (Fin 0, Fin 0)"; cases "collect_loop pts ([], Fin 0)")
       (simp add: calcElevationStats_def or_null_abs_nonpos)
qed

text \<open>
  On the empty sequence the elevation list is empty: \<open>Math.max\<close> of no argument is
  \<open>-Infinity\<close>, \<open>Math.min\<close> is \<open>+Infinity\<close>, both truthy, and the mean is \<open>0 / 0\<close>.
\<close>

lemma calcElevationStats_empty:
  "calcElevationStats [] =
     \<lparr> max_f = Some NInf, min_f = Some PInf, pos_f = None, neg_f = None, avg_f = None \<rparr>"
  by (simp add: calcElevationStats_def Math_max_def Math_min_def or_null_def truthy_def)

text \<open>
  C10. Whenever \<open>calcElevationStats\<close> returns a non-null \<open>pos\<close> it is strictly positive,
  and whenever it returns a non-null \<open>neg\<close> it is strictly positive: the total descent
  is reported as a positive magnitude.
\<close>

theorem pos_neg_strictly_positive:
  "(\<forall>v. pos_f (calcElevationStats pts) = Some v \<longrightarrow> js_gt v (Fin 0)) \<and>
   (\<forall>v. neg_f (calcElevationStats pts) = Some v \<longrightarrow> js_gt v (Fin 0))"
proof -
  obtain dp dm where d: "delta_loop pts (Fin 0, Fin 0) = (dp, dm)"
    by (cases "delta_loop pts (Fin 0, Fin 0)")
  obtain elevation sum where c: "collect_loop pts ([], Fin 0) = (elevation, sum)"
    by (cases "collect_loop pts ([], Fin 0)")
  have "pos_f (calcElevationStats pts) = or_null (js_abs dp)"
    and "neg_f (calcElevationStats pts) = or_null (js_abs dm)"
    by (simp_all add: calcElevationStats_def d c)
  then show ?thesis
    using or_null_abs_pos [of dp] or_null_abs_pos [of dm] by simp
qed

theorem pos_neg_strictly_positive_witness:
  "pos_f (calcElevationStats [sample_point (Fin 0) (Fin 0) (Some (Fin 1)),
      sample_point (Fin 0) (Fin 0) (Some (Fin 3)), sample_point (Fin 0) (Fin 0) (Some (Fin 2))])
     = Some (Fin 2) \<and> js_gt (Fin 2) (Fin 0) \<and>
   neg_f (calcElevationStats [sample_point (Fin 0) (Fin 0) (Some (Fin 1)),
      sample_point (Fin 0) (Fin 0) (Some (Fin 3)), sample_point (Fin 0) (Fin 0) (Some (Fin 2))])
     = Some (Fin 1) \<and> js_gt (Fin 1) (Fin 0)"
  using pos_neg_strictly_positive [of "[sample_point (Fin 0) (Fin 0) (Some (Fin 1)),
      sample_point (Fin 0) (Fin 0) (Some (Fin 3)), sample_point (Fin 0) (Fin 0) (Some (Fin 2))]"]
  by (simp add: calcElevationStats_def sample_point_def delta_step_def or_zero_def truthy_def
      js_sub_def js_gt_def or_null_def)

lemma ele_values_nonempty:
  "finite_eles pts \<Longrightarrow> \<exists>p \<in> set pts. ele p \<noteq> None \<Longrightarrow> ele_values pts \<noteq> []"
proof (induction pts)
  case Nil
  then show ?case by simp
next
  case (Cons p ps)
  show ?case
  proof (cases "ele p")
    case None
    then show ?thesis using Cons by (simp add: finite_eles_def)
  next
    case (Some v)
    then obtain r where "v = Fin r" using Cons.prems(1) finite_numE by (auto simp: finite_eles_def)
    then show ?thesis using Some by simp
  qed
qed

lemma avg_null_when_all_zero:
  assumes "\<forall>p \<in> set pts. ele p = None \<or> ele p = Some (Fin 0)"
  shows "avg_f (calcElevationStats pts) = None"
proof -
  obtain es s where c: "collect_loop pts ([], Fin 0) = (es, s)"
    by (cases "collect_loop pts ([], Fin 0)")
  have "s = Fin 0" using snd_collect_loop_zero [OF assms, of "[]"] c by simp
  then have "avg_f (calcElevationStats pts) = or_null (js_div (Fin 0) (Fin (real (length es))))"
    by (cases "delta_loop pts (Fin 0, Fin 0)") (simp add: calcElevationStats_def c)
  then show ?thesis by (simp add: or_null_def truthy_def)
qed

lemma max_min_finite:
  assumes "finite_eles pts"
  shows "max_f (calcElevationStats pts) = or_null (Math_max (map Fin (ele_values pts)))"
    and "min_f (calcElevationStats pts) = or_null (Math_min (map Fin (ele_values pts)))"
proof -
  obtain es s where c: "collect_loop pts ([], Fin 0) = (es, s)"
    by (cases "collect_loop pts ([], Fin 0)")
  have es: "es = map Fin (ele_values pts)"
    using fst_collect_loop_finite [OF assms, of "[]" "Fin 0"] c by simp
  show "max_f (calcElevationStats pts) = or_null (Math_max (map Fin (ele_values pts)))"
    by (cases "delta_loop pts (Fin 0, Fin 0)") (simp add: calcElevationStats_def c es)
  show "min_f (calcElevationStats pts) = or_null (Math_min (map Fin (ele_values pts)))"
    by (cases "delta_loop pts (Fin 0, Fin 0)") (simp add: calcElevationStats_def c es)
qed

lemma max_min_some_elevation:
  assumes "finite_eles pts" "\<exists>p \<in> set pts. ele p \<noteq> None"
  shows "max_f (calcElevationStats pts) =
           (if Max (set (ele_values pts)) = 0 then None else Some (Fin (Max (set (ele_values pts)))))"
    and "min_f (calcElevationStats pts) =
           (if Min (set (ele_values pts)) = 0 then None else Some (Fin (Min (set (ele_values pts)))))"
proof -
  have ne: "ele_values pts \<noteq> []" using ele_values_nonempty [OF assms] .
  show "max_f (calcElevationStats pts) =
           (if Max (set (ele_values pts)) = 0 then None else Some (Fin (Max (set (ele_values pts)))))"
    using max_min_finite(1) [OF assms(1)] Math_max_Fin [OF ne] by (simp add: or_null_def truthy_def)
  show "min_f (calcElevationStats pts) =
           (if Min (set (ele_values pts)) = 0 then None else Some (Fin (Min (set (ele_values pts)))))"
    using max_min_finite(2) [OF assms(1)] Math_min_Fin [OF ne] by (simp add: or_null_def truthy_def)
qed

text \<open>
  C1, as amended. For every point sequence: \<open>pos\<close> (resp. \<open>neg\<close>) is null if and only if
  the accumulated positive-only (resp. negative-only) delta sum is exactly zero, and
  \<open>avg\<close> is null when no point has a non-null elevation, and more generally when every
  elevation is null or 0. When at least one point has a non-null elevation and every
  non-null elevation is a finite number, \<open>max\<close> (resp. \<open>min\<close>) is null if and only if the
  largest (resp. the smallest) of the non-null elevations is exactly 0, and is that
  elevation otherwise.
\<close>

theorem elevation_null_rules:
  "(pos_f (calcElevationStats pts) = None \<longleftrightarrow> fst (delta_loop pts (Fin 0, Fin 0)) = Fin 0) \<and>
   (neg_f (calcElevationStats pts) = None \<longleftrightarrow> snd (delta_loop pts (Fin 0, Fin 0)) = Fin 0) \<and>
   ((\<forall>p \<in> set pts. ele p = None \<or> ele p = Some (Fin 0)) \<longrightarrow>
      avg_f (calcElevationStats pts) = None) \<and>
   (finite_eles pts \<and> (\<exists>p \<in> set pts. ele p \<noteq> None) \<longrightarrow>
      max_f (calcElevationStats pts) =
        (if Max (set (ele_values pts)) = 0 then None else Some (Fin (Max (set (ele_values pts))))) \<and>
      min_f (calcElevationStats pts) =
        (if Min (set (ele_values pts)) = 0 then None else Some (Fin (Min (set (ele_values pts))))))"
  using pos_null_iff [of pts] neg_null_iff [of pts] avg_null_when_all_zero [of pts]
    max_min_some_elevation [of pts]
  by blast

theorem elevation_null_rules_witness:
  "ele (sample_point (Fin 0) (Fin 0) None) = None \<and>
   avg_f (calcElevationStats [sample_point (Fin 0) (Fin 0) None]) = None \<and>
   ele (sample_point (Fin 0) (Fin 0) (Some (Fin 0))) = Some (Fin 0) \<and>
   avg_f (calcElevationStats [sample_point (Fin 0) (Fin 0) None,
      sample_point (Fin 0) (Fin 0) (Some (Fin 0))]) = None \<and>
   finite_eles [sample_point (Fin 0) (Fin 0) (Some (Fin 1)), sample_point (Fin 0) (Fin 0) None,
      sample_point (Fin 0) (Fin 0) (Some (Fin 3))] \<and>
   (\<exists>p \<in> set [sample_point (Fin 0) (Fin 0) (Some (Fin 1)), sample_point (Fin 0) (Fin 0) None,
      sample_point (Fin 0) (Fin 0) (Some (Fin 3))]. ele p \<noteq> None) \<and>
   max_f (calcElevationStats [sample_point (Fin 0) (Fin 0) (Some (Fin 1)),
      sample_point (Fin 0) (Fin 0) None, sample_point (Fin 0) (Fin 0) (Some (Fin 3))])
     = Some (Fin 3) \<and>
   min_f (calcElevationStats [sample_point (Fin 0) (Fin 0) (Some (Fin 1)),
      sample_point (Fin 0) (Fin 0) None, sample_point (Fin 0) (Fin 0) (Some (Fin 3))])
     = Some (Fin 1)"
  using elevation_null_rules [of "[sample_point (Fin 0) (Fin 0) None]"]
    elevation_null_rules [of "[sample_point (Fin 0) (Fin 0) None,
      sample_point (Fin 0) (Fin 0) (Some (Fin 0))]"]
    elevation_null_rules [of "[sample_point (Fin 0) (Fin 0) (Some (Fin 1)),
      sample_point (Fin 0) (Fin 0) None, sample_point (Fin 0) (Fin 0) (Some (Fin 3))]"]
  by (simp add: sample_point_def finite_eles_def finite_num_def)

text \<open>
  C1 as stated fails on a single point of elevation 0: a point has a non-null elevation,
  and \<open>max\<close>, \<open>min\<close> and \<open>avg\<close> are null all the same.
\<close>

theorem elevation_null_counterexample:
  "ele (sample_point (Fin 0) (Fin 0) (Some (Fin 0))) \<noteq> None \<and>
   max_f (calcElevationStats [sample_point (Fin 0) (Fin 0) (Some (Fin 0))]) = None \<and>
   min_f (calcElevationStats [sample_point (Fin 0) (Fin 0) (Some (Fin 0))]) = None \<and>
   avg_f (calcElevationStats [sample_point (Fin 0) (Fin 0) (Some (Fin 0))]) = None"
  by (simp add: calcElevationStats_def sample_point_def or_zero_def truthy_def or_null_def
      Math_max_def Math_min_def js_gt_def Let_def)

section \<open>Properties of the point parser\<close>

lemma parseFloat_zero: "parseFloat ''0'' = Fin 0"
  by (simp add: parseFloat_def double_range_def strip_sign_def is_space_def is_digit_def digits_val_def
      digit_val_def scale10_def exponent_part_def)

lemma parseFloat_abc: "parseFloat ''abc'' = NaN"
  by (simp add: parseFloat_def double_range_def strip_sign_def is_space_def is_digit_def)

lemma parseFloat_zero_point_zero: "parseFloat ''0.0'' = Fin 0"
  by (simp add: parseFloat_def double_range_def strip_sign_def is_space_def is_digit_def digits_val_def
      digit_val_def scale10_def exponent_part_def)

lemma parseFloat_number: "parseFloat ''35.5'' = Fin (71 / 2)"
  by (simp add: parseFloat_def double_range_def strip_sign_def is_space_def is_digit_def digits_val_def
      digit_val_def scale10_def exponent_part_def)

text \<open>Leading no-break space is skipped; values out of the doubles' range.\<close>

lemma parseFloat_range:
  "parseFloat [CHR 0xA0, CHR ''5''] = Fin 5"
  "parseFloat ''1e400'' = PInf"
  "parseFloat ''-1e400'' = NInf"
  "parseFloat ''1e-400'' = Fin 0"
  by (simp_all add: parseFloat_def double_range_def strip_sign_def is_space_def is_digit_def
      digits_val_def digit_val_def scale10_def exponent_part_def)

lemma ele_parse:
  "ele (parse_wpt dp e) = ele_of_text (getElementValue e ''ele'')"
  "ele (parse_rtept dp e) = ele_of_text (getElementValue e ''ele'')"
  "ele (parse_trkpt dp e) = ele_of_text (getElementValue e ''ele'')"
  by (simp_all add: parse_wpt_def parse_rtept_def parse_trkpt_def Let_def ele_of_text_def
      or_str_def isNaN_def parseFloat_zero split: option.splits)

lemma ele_null_rule_aux:
  "(ele_of_text v = None \<longleftrightarrow> (\<exists>t. v = Some t \<and> t \<noteq> [] \<and> parseFloat t = NaN)) \<and>
   (v = None \<or> v = Some [] \<longrightarrow> ele_of_text v = Some (Fin 0)) \<and>
   (\<forall>t. v = Some t \<and> t \<noteq> [] \<and> parseFloat t \<noteq> NaN \<longrightarrow> ele_of_text v = Some (parseFloat t))"
  by (auto simp: ele_of_text_def split: option.splits)

text \<open>
  C3, as amended. For every parsed point (waypoint, route point or track point), \<open>ele\<close>
  is null exactly when the \<open>ele\<close> child element is present with a non-empty text that
  \<open>parseFloat\<close> cannot read as a number; when the \<open>ele\<close> child is absent or its text
  is empty, \<open>ele\<close> is 0; otherwise \<open>ele\<close> is the number that \<open>parseFloat\<close> reads from
  the text.
\<close>

theorem ele_null_rule:
  "f \<in> {parse_wpt dp, parse_rtept dp, parse_trkpt dp} \<Longrightarrow>
   (ele (f e) = None \<longleftrightarrow>
      (\<exists>t. getElementValue e ''ele'' = Some t \<and> t \<noteq> [] \<and> parseFloat t = NaN)) \<and>
   (getElementValue e ''ele'' = None \<or> getElementValue e ''ele'' = Some [] \<longrightarrow>
      ele (f e) = Some (Fin 0)) \<and>
   (\<forall>t. getElementValue e ''ele'' = Some t \<and> t \<noteq> [] \<and> parseFloat t \<noteq> NaN \<longrightarrow>
      ele (f e) = Some (parseFloat t))"
  using ele_null_rule_aux [of "getElementValue e ''ele''"] ele_parse [of dp e]
  by auto

lemma getElementValue_leaf:
  "getElementValue (mk_elem tag attrs [leaf k txt]) k = Some txt"
  by (simp add: getElementValue_def querySelector_def querySelectorAll_def mk_elem_def leaf_def)

lemma getElementValue_leaf_other:
  "k' \<noteq> k \<Longrightarrow> getElementValue (mk_elem tag attrs [leaf k txt]) k' = None"
  by (simp add: getElementValue_def querySelector_def querySelectorAll_def mk_elem_def leaf_def)

theorem ele_null_rule_witness:
  "getElementValue (wpt_with_ele ''abc'') ''ele'' = Some ''abc'' \<and>
   ele (parse_wpt utc_date_parse (wpt_with_ele ''abc'')) = None \<and>
   getElementValue wpt_no_ele ''ele'' = None \<and>
   ele (parse_wpt utc_date_parse wpt_no_ele) = Some (Fin 0) \<and>
   getElementValue (wpt_with_ele ''35.5'') ''ele'' = Some ''35.5'' \<and>
   ele (parse_wpt utc_date_parse (wpt_with_ele ''35.5'')) = Some (Fin (71 / 2))"
  using ele_null_rule [of "parse_wpt utc_date_parse" utc_date_parse "wpt_with_ele ''abc''"]
    ele_null_rule [of "parse_wpt utc_date_parse" utc_date_parse wpt_no_ele]
    ele_null_rule [of "parse_wpt utc_date_parse" utc_date_parse "wpt_with_ele ''35.5''"]
  by (simp add: wpt_with_ele_def wpt_no_ele_def getElementValue_leaf getElementValue_leaf_other
      parseFloat_abc parseFloat_number)

text \<open>
  C3 as stated fails on a waypoint without an \<open>ele\<close> child: its \<open>ele\<close> is 0, not null,
  and no source text was \<open>"0"\<close>.
\<close>

theorem ele_null_counterexample:
  "getElementValue wpt_no_ele ''ele'' = None \<and>
   ele (parse_wpt utc_date_parse wpt_no_ele) = Some (Fin 0)"
  by (simp add: ele_parse ele_of_text_def wpt_no_ele_def getElementValue_leaf_other)

text \<open>A waypoint whose \<open>ele\<close> child holds \<open>0.0\<close> has elevation 0 as well.\<close>

lemma ele_zero_from_other_text:
  "ele (parse_wpt dp (wpt_with_ele ''0.0'')) = Some (Fin 0)"
  by (simp add: ele_parse ele_of_text_def wpt_with_ele_def getElementValue_leaf
      parseFloat_zero_point_zero)

text \<open>
  C4, as amended. For every route point and track point, a missing or empty \<open>lat\<close> or
  \<open>lon\<close> attribute yields the numeric value 0 for that coordinate; a non-empty attribute
  yields what \<open>parseFloat\<close> reads from its text, which is \<open>NaN\<close> when the text is
  unparsable.
\<close>

theorem segment_point_lat_lon:
  "f \<in> {parse_rtept dp, parse_trkpt dp} \<Longrightarrow>
   (getAttribute e ''lat'' = None \<or> getAttribute e ''lat'' = Some [] \<longrightarrow> lat (f e) = Fin 0) \<and>
   (\<forall>t. getAttribute e ''lat'' = Some t \<and> t \<noteq> [] \<longrightarrow> lat (f e) = parseFloat t) \<and>
   (getAttribute e ''lon'' = None \<or> getAttribute e ''lon'' = Some [] \<longrightarrow> lon (f e) = Fin 0) \<and>
   (\<forall>t. getAttribute e ''lon'' = Some t \<and> t \<noteq> [] \<longrightarrow> lon (f e) = parseFloat t)"
proof -
  assume "f \<in> {parse_rtept dp, parse_trkpt dp}"
  then have la: "lat (f e) = parseFloat (or_str (getAttribute e ''lat'') ''0'')"
    and lo: "lon (f e) = parseFloat (or_str (getAttribute e ''lon'') ''0'')"
    by (auto simp: parse_rtept_def parse_trkpt_def Let_def)
  show ?thesis
    unfolding la lo by (auto simp: or_str_def parseFloat_zero)
qed

lemma parseFloat_two: "parseFloat ''2'' = Fin 2"
  by (simp add: parseFloat_def double_range_def strip_sign_def is_space_def is_digit_def digits_val_def
      digit_val_def scale10_def exponent_part_def)

theorem segment_point_lat_lon_witness:
  "getAttribute (segpt_no_lat ''rtept'') ''lat'' = None \<and>
   lat (parse_rtept utc_date_parse (segpt_no_lat ''rtept'')) = Fin 0 \<and>
   getAttribute (segpt_no_lat ''rtept'') ''lon'' = Some ''2'' \<and>
   lon (parse_rtept utc_date_parse (segpt_no_lat ''rtept'')) = Fin 2 \<and>
   getAttribute (segpt_with_lat ''trkpt'' '''') ''lat'' = Some [] \<and>
   lat (parse_trkpt utc_date_parse (segpt_with_lat ''trkpt'' '''')) = Fin 0 \<and>
   getAttribute (segpt_with_lat ''trkpt'' ''35.5'') ''lat'' = Some ''35.5'' \<and>
   lat (parse_trkpt utc_date_parse (segpt_with_lat ''trkpt'' ''35.5'')) = Fin (71 / 2)"
  using segment_point_lat_lon [of "parse_rtept utc_date_parse" utc_date_parse "segpt_no_lat ''rtept''"]
    segment_point_lat_lon [of "parse_trkpt utc_date_parse" utc_date_parse "segpt_with_lat ''trkpt'' ''''"]
    segment_point_lat_lon [of "parse_trkpt utc_date_parse" utc_date_parse "segpt_with_lat ''trkpt'' ''35.5''"]
  by (simp add: segpt_no_lat_def segpt_with_lat_def mk_elem_def getAttribute_def
      parseFloat_two parseFloat_number)

text \<open>
  C4 as stated fails on a track point with \<open>lat="abc"\<close>: the parsed \<open>lat\<close> is \<open>NaN\<close>.
\<close>

theorem segment_point_lat_lon_counterexample:
  "getAttribute (segpt_with_lat ''trkpt'' ''abc'') ''lat'' = Some ''abc'' \<and>
   lat (parse_trkpt utc_date_parse (segpt_with_lat ''trkpt'' ''abc'')) = NaN"
  by (simp add: segpt_with_lat_def mk_elem_def getAttribute_def parse_trkpt_def Let_def
      or_str_def parseFloat_abc)


section \<open>Properties of the distance\<close>

lemma calcDistanceBetween_split:
  "calcDistanceBetween p q = distance_of_a (haversine_a p q)"
  by (simp add: calcDistanceBetween_def haversine_a_def distance_of_a_def Let_def)

text \<open>The distance from a point with finite coordinates to itself is 0.\<close>

lemma distance_to_itself: "finite_point p \<Longrightarrow> calcDistanceBetween p p = Fin 0"
proof -
  assume "finite_point p"
  then obtain la lo where "lat p = Fin la" "lon p = Fin lo"
    using finite_numE unfolding finite_point_def by metis
  then show ?thesis
    by (simp add: calcDistanceBetween_def Let_def Math_PI_def js_sub_def Math_sin_def
        Math_cos_def Math_sqrt_def)
qed

text \<open>
  The last two lines of \<open>calcDistanceBetween\<close> take the square root of \<open>1 - a\<close> without
  bounding \<open>a\<close>: as soon as \<open>a\<close> exceeds 1 the distance is \<open>NaN\<close>. The haversine
  term of two points on the sphere is at most 1, but the rounded products and sums of
  the doubles can exceed it: for the points (8, -180) and (-8, 0), close to antipodal,
  they give \<open>a\<close> = 1 + 1 / 2 ^ 52 in either order of the two points, and so the distance
  \<open>NaN\<close> both ways. This number model cannot show that rounding; what it shows is the rest
  of the computation from such an \<open>a\<close> on.
\<close>

lemma distance_of_a_beyond_one: "1 < a \<Longrightarrow> distance_of_a (Fin a) = NaN"
  by (simp add: distance_of_a_def js_sub_def Math_sqrt_def)

lemma distance_of_a_rounded_up: "distance_of_a (Fin (1 + 1 / 2 ^ 52)) = NaN"
  by (rule distance_of_a_beyond_one) simp

text \<open>
  C9. \<open>calcDistanceBetween\<close> depends only on \<open>lat\<close> and \<open>lon\<close>: two pairs of points
  that agree on these fields have the same distance, whatever their other fields hold.
\<close>

theorem distance_depends_on_lat_lon:
  assumes "lat p1 = lat q1" "lon p1 = lon q1" "lat p2 = lat q2" "lon p2 = lon q2"
  shows "calcDistanceBetween p1 p2 = calcDistanceBetween q1 q2"
  using assms by (simp add: calcDistanceBetween_def)

theorem distance_depends_on_lat_lon_witness:
  "lat (sample_point (Fin 47) (Fin (-1)) None) = lat (sample_point (Fin 47) (Fin (-1)) (Some (Fin 35))) \<and>
   lon (sample_point (Fin 47) (Fin (-1)) None) = lon (sample_point (Fin 47) (Fin (-1)) (Some (Fin 35))) \<and>
   lat (sample_point (Fin 48) (Fin 2) (Some NaN)) = lat (sample_point (Fin 48) (Fin 2) None) \<and>
   lon (sample_point (Fin 48) (Fin 2) (Some NaN)) = lon (sample_point (Fin 48) (Fin 2) None) \<and>
   calcDistanceBetween (sample_point (Fin 47) (Fin (-1)) None)
       (sample_point (Fin 48) (Fin 2) (Some NaN))
     = calcDistanceBetween (sample_point (Fin 47) (Fin (-1)) (Some (Fin 35)))
         (sample_point (Fin 48) (Fin 2) None)"
  using distance_depends_on_lat_lon [of "sample_point (Fin 47) (Fin (-1)) None"
      "sample_point (Fin 47) (Fin (-1)) (Some (Fin 35))"
      "sample_point (Fin 48) (Fin 2) (Some NaN)" "sample_point (Fin 48) (Fin 2) None"]
  by (simp add: sample_point_def)

section \<open>Properties of the route distance\<close>

lemma length_running: "length (running t ps) = length ps - 1"
  by (induction t ps rule: running.induct) simp_all

lemma array_set_append: "length xs = i \<Longrightarrow> array_set xs (int i) v = xs @ [Some v]"
  by (simp add: array_set_def)

lemma distance_loop_running:
  "length c = i \<Longrightarrow>
   distance_loop pts i (t, c) =
     (last (t # running t (drop i pts)), c @ map Some (running t (drop i pts)))"
proof (induction "length pts - i" arbitrary: i t c)
  case 0
  then have "drop i pts = []" by simp
  then show ?case using 0 by (subst distance_loop.simps) simp
next
  case (Suc n)
  then have i: "i < length pts" by simp
  show ?case
  proof (cases "int i < int (length pts) - 1")
    case True
    then have i1: "Suc i < length pts" by auto
    define t' where "t' = js_add t (calcDistanceBetween (pts ! i) (pts ! (i + 1)))"
    have dr: "drop i pts = pts ! i # pts ! (i + 1) # drop (i + 2) pts"
      using i i1 by (simp add: Cons_nth_drop_Suc)
    have dr': "drop (i + 1) pts = pts ! (i + 1) # drop (i + 2) pts"
      using i1 by (simp add: Cons_nth_drop_Suc)
    have run: "running t (drop i pts) = t' # running t' (drop (i + 1) pts)"
      unfolding dr dr' t'_def by simp
    have step: "distance_loop pts i (t, c) = distance_loop pts (i + 1) (t', c @ [Some t'])"
      using True Suc.prems
      by (subst distance_loop.simps) (simp add: Let_def t'_def array_set_append)
    have n: "n = length pts - (i + 1)" using Suc.hyps(2) by simp
    have len: "length (c @ [Some t']) = i + 1" using Suc.prems by simp
    have "distance_loop pts (i + 1) (t', c @ [Some t']) =
        (last (t' # running t' (drop (i + 1) pts)),
         (c @ [Some t']) @ map Some (running t' (drop (i + 1) pts)))"
      by (rule Suc.hyps(1) [OF n len])
    then show ?thesis unfolding step run by simp
  next
    case False
    then have "length (drop i pts) = 1" using i by simp
    then obtain p where "drop i pts = [p]"
      by (cases "drop i pts") auto
    then have "running t (drop i pts) = []" by simp
    then show ?thesis using False by (subst distance_loop.simps) simp
  qed
qed

lemma calcRouteDistance_eq:
  "calcRouteDistance ps =
     \<lparr> total_f = dist_total ps,
       cumul = (if ps = [] then [] else map Some (running (Fin 0) ps) @ [Some (dist_total ps)]) \<rparr>"
proof -
  have dl: "distance_loop ps 0 (Fin 0, []) = (dist_total ps, map Some (running (Fin 0) ps))"
    using distance_loop_running [of "[]" 0 ps "Fin 0"] by (simp add: dist_total_def)
  show ?thesis
  proof (cases "ps = []")
    case True
    then show ?thesis unfolding calcRouteDistance_def dl
      by (simp add: array_set_def)
  next
    case False
    then have "int (length ps) - 1 = int (length (map Some (running (Fin 0) ps)))"
      by (cases ps) (simp_all add: length_running)
    then have "array_set (map Some (running (Fin 0) ps)) (int (length ps) - 1) (dist_total ps)
          = map Some (running (Fin 0) ps) @ [Some (dist_total ps)]"
      by (simp only: array_set_append [OF refl])
    then show ?thesis using False unfolding calcRouteDistance_def dl
      by simp
  qed
qed

lemma Math_sqrt_range: "nonneg_or_nan (Math_sqrt x)"
  by (cases x) (simp_all add: Math_sqrt_def nonneg_or_nan_def)

lemma Math_atan2_range:
  "nonneg_or_nan y \<Longrightarrow> nonneg_or_nan x \<Longrightarrow> nonneg_or_nan (Math_atan2 y x)"
  by (cases y; cases x) (auto simp: nonneg_or_nan_def)

lemma js_mul_range: "0 \<le> k \<Longrightarrow> nonneg_or_nan x \<Longrightarrow> nonneg_or_nan (js_mul (Fin k) x)"
  by (cases x) (auto simp: nonneg_or_nan_def)

lemma calcDistanceBetween_range: "nonneg_or_nan (calcDistanceBetween p q)"
  unfolding calcDistanceBetween_def Let_def
  by (intro js_mul_range Math_atan2_range Math_sqrt_range) simp_all

lemma js_add_never_less: "nonneg_or_nan d \<Longrightarrow> \<not> js_lt (js_add t d) t"
  by (cases t; cases d) (auto simp: nonneg_or_nan_def)

lemma js_lt_irrefl: "\<not> js_lt x x"
  by (cases x) simp_all

lemma never_decreases_running:
  "never_decreases (map Some (t # running t ps))"
proof (induction t ps rule: running.induct)
  case (1 t p q ps)
  then show ?case
    by (simp add: js_add_never_less calcDistanceBetween_range)
qed simp_all

lemma never_decreases_snoc_last:
  "xs \<noteq> [] \<Longrightarrow> never_decreases (map Some xs) \<Longrightarrow> never_decreases (map Some (xs @ [last xs]))"
proof (induction xs)
  case Nil
  then show ?case by simp
next
  case (Cons x xs)
  then show ?case by (cases xs) (simp_all add: js_lt_irrefl)
qed

lemma never_decreases_tl:
  "never_decreases (Some x # xs) \<Longrightarrow> never_decreases xs"
proof (cases xs)
  case Nil
  then show ?thesis by simp
next
  case (Cons y ys)
  assume "never_decreases (Some x # xs)"
  then show ?thesis using Cons by (cases y) simp_all
qed

lemma non_decreasing_tl:
  "non_decreasing (Some x # xs) \<Longrightarrow> non_decreasing xs"
proof (cases xs)
  case Nil
  then show ?thesis by simp
next
  case (Cons y ys)
  assume "non_decreasing (Some x # xs)"
  then show ?thesis using Cons by (cases y) simp_all
qed

lemma non_decreasing_snoc_last:
  "xs \<noteq> [] \<Longrightarrow> NaN \<notin> set xs \<Longrightarrow> non_decreasing (map Some xs)
     \<Longrightarrow> non_decreasing (map Some (xs @ [last xs]))"
proof (induction xs)
  case Nil
  then show ?case by simp
next
  case (Cons x xs)
  then show ?case by (cases xs) (auto simp: js_le_def js_lt_irrefl)
qed

lemma nonneg_of_range: "nonneg_or_nan d \<Longrightarrow> d \<noteq> NaN \<Longrightarrow> nonneg d"
  by (cases d) (simp_all add: nonneg_or_nan_def nonneg_def)

lemma nonneg_js_add:
  "nonneg t \<Longrightarrow> nonneg d \<Longrightarrow> nonneg (js_add t d) \<and> js_le t (js_add t d)"
  by (cases t; cases d) (simp_all add: nonneg_def js_le_def)

lemma running_no_nan:
  "nonneg t \<Longrightarrow> NaN \<notin> set (segment_distances ps) \<Longrightarrow>
     non_decreasing (map Some (t # running t ps)) \<and> list_all nonneg (running t ps)"
proof (induction t ps rule: running.induct)
  case (1 t p q ps)
  let ?d = "calcDistanceBetween p q"
  have d: "nonneg ?d"
  proof (rule nonneg_of_range)
    show "nonneg_or_nan ?d" by (rule calcDistanceBetween_range)
    show "?d \<noteq> NaN" using "1.prems"(2) by auto
  qed
  have t': "nonneg (js_add t ?d)" "js_le t (js_add t ?d)"
    using nonneg_js_add [OF "1.prems"(1) d] by simp_all
  have "non_decreasing (map Some (js_add t ?d # running (js_add t ?d) (q # ps))) \<and>
        list_all nonneg (running (js_add t ?d) (q # ps))"
    using "1.IH" [OF t'(1)] "1.prems"(2) by simp
  then show ?case using t' by simp
qed simp_all

lemma list_all_nonneg_no_nan: "list_all nonneg xs \<Longrightarrow> NaN \<notin> set xs"
  by (induction xs) (auto simp: nonneg_def)

lemma cumul_shape:
  "ps \<noteq> [] \<Longrightarrow>
   cumul (calcRouteDistance ps) =
     (if running (Fin 0) ps = [] then [Some (Fin 0)]
      else map Some (running (Fin 0) ps @ [last (running (Fin 0) ps)]))"
  by (simp add: calcRouteDistance_eq dist_total_def)

lemma cumul_never_decreases: "never_decreases (cumul (calcRouteDistance ps))"
proof (cases "ps = []")
  case True
  then show ?thesis by (simp add: calcRouteDistance_eq)
next
  case False
  have "never_decreases (map Some (running (Fin 0) ps))"
    using never_decreases_running [of "Fin 0" ps]
      never_decreases_tl [of "Fin 0" "map Some (running (Fin 0) ps)"] by simp
  then show ?thesis using False never_decreases_snoc_last [of "running (Fin 0) ps"]
    by (simp add: cumul_shape)
qed

lemma cumul_non_decreasing_no_nan:
  assumes "NaN \<notin> set (segment_distances ps)"
  shows "non_decreasing (cumul (calcRouteDistance ps))"
    and "total_f (calcRouteDistance ps) \<noteq> NaN"
proof -
  have z: "nonneg (Fin 0)" by (simp add: nonneg_def)
  have r: "non_decreasing (map Some (Fin 0 # running (Fin 0) ps))"
    "list_all nonneg (running (Fin 0) ps)"
    using running_no_nan [OF z assms] by simp_all
  have nn: "NaN \<notin> set (running (Fin 0) ps)" using list_all_nonneg_no_nan [OF r(2)] .
  show "total_f (calcRouteDistance ps) \<noteq> NaN"
  proof (cases "running (Fin 0) ps = []")
    case True
    then show ?thesis by (simp add: calcRouteDistance_eq dist_total_def)
  next
    case False
    then have "last (running (Fin 0) ps) \<in> set (running (Fin 0) ps)" by simp
    then have "last (running (Fin 0) ps) \<noteq> NaN" using nn by metis
    then show ?thesis using False by (simp add: calcRouteDistance_eq dist_total_def)
  qed
  show "non_decreasing (cumul (calcRouteDistance ps))"
  proof (cases "ps = []")
    case True
    then show ?thesis by (simp add: calcRouteDistance_eq)
  next
    case False
    have "non_decreasing (map Some (running (Fin 0) ps))"
      using r(1) non_decreasing_tl [of "Fin 0" "map Some (running (Fin 0) ps)"] by simp
    then show ?thesis using False nn non_decreasing_snoc_last [of "running (Fin 0) ps"]
      by (simp add: cumul_shape)
  qed
qed

lemma cumul_structure:
  "length (cumul (calcRouteDistance ps)) = length ps \<and>
   (ps \<noteq> [] \<longrightarrow> array_get (cumul (calcRouteDistance ps)) (int (length ps) - 1)
        = Some (total_f (calcRouteDistance ps))) \<and>
   (length ps \<le> 1 \<longrightarrow> total_f (calcRouteDistance ps) = Fin 0) \<and>
   (length ps = 1 \<longrightarrow> cumul (calcRouteDistance ps) = [Some (Fin 0)]) \<and>
   (ps = [] \<longrightarrow> cumul (calcRouteDistance ps) = [])"
proof -
  have len: "length (cumul (calcRouteDistance ps)) = length ps"
    by (cases ps) (simp_all add: calcRouteDistance_eq length_running)
  have lastp: "ps \<noteq> [] \<Longrightarrow> array_get (cumul (calcRouteDistance ps)) (int (length ps) - 1)
        = Some (total_f (calcRouteDistance ps))"
  proof -
    assume ne: "ps \<noteq> []"
    then have "nat (int (length ps) - 1) = length (map Some (running (Fin 0) ps))"
      by (cases ps) (simp_all add: length_running)
    then show ?thesis using ne
      by (simp add: calcRouteDistance_eq array_get_def nth_append length_running)
  qed
  have small: "length ps \<le> 1 \<Longrightarrow> running (Fin 0) ps = []"
    by (cases ps; cases "tl ps") auto
  show ?thesis using len lastp small
    by (auto simp: calcRouteDistance_eq dist_total_def)
qed

text \<open>
  C2, as amended. For every point sequence of length \<open>n\<close>, \<open>calcRouteDistance\<close> returns
  a \<open>cumul\<close> array of length \<open>n\<close>, with \<open>cumul[n-1]\<close> holding the total when \<open>n \<ge> 1\<close>;
  for \<open>n \<le> 1\<close> the total is 0, \<open>cumul\<close> is \<open>[0]\<close> when \<open>n = 1\<close> and empty when
  \<open>n = 0\<close>; no entry of \<open>cumul\<close> is smaller than the entry before it; and when no
  distance between two adjacent points is \<open>NaN\<close>, \<open>cumul\<close> is non-decreasing and the
  total is not \<open>NaN\<close>.
\<close>

theorem route_distance_cumul:
  "length (cumul (calcRouteDistance ps)) = length ps \<and>
   (ps \<noteq> [] \<longrightarrow> array_get (cumul (calcRouteDistance ps)) (int (length ps) - 1)
        = Some (total_f (calcRouteDistance ps))) \<and>
   (length ps \<le> 1 \<longrightarrow> total_f (calcRouteDistance ps) = Fin 0) \<and>
   (length ps = 1 \<longrightarrow> cumul (calcRouteDistance ps) = [Some (Fin 0)]) \<and>
   (ps = [] \<longrightarrow> cumul (calcRouteDistance ps) = []) \<and>
   never_decreases (cumul (calcRouteDistance ps)) \<and>
   (NaN \<notin> set (segment_distances ps) \<longrightarrow>
      non_decreasing (cumul (calcRouteDistance ps)) \<and> total_f (calcRouteDistance ps) \<noteq> NaN)"
  using cumul_structure [of ps] cumul_never_decreases [of ps] cumul_non_decreasing_no_nan [of ps]
  by blast

theorem route_distance_cumul_witness:
  "cumul (calcRouteDistance []) = [] \<and>
   length [sample_point (Fin 47) (Fin (-1)) None] = 1 \<and>
   total_f (calcRouteDistance [sample_point (Fin 47) (Fin (-1)) None]) = Fin 0 \<and>
   cumul (calcRouteDistance [sample_point (Fin 47) (Fin (-1)) None]) = [Some (Fin 0)] \<and>
   [sample_point (Fin 47) (Fin (-1)) None, sample_point (Fin 47) (Fin (-1)) None] \<noteq> [] \<and>
   segment_distances [sample_point (Fin 47) (Fin (-1)) None, sample_point (Fin 47) (Fin (-1)) None]
     = [Fin 0] \<and>
   array_get (cumul (calcRouteDistance
       [sample_point (Fin 47) (Fin (-1)) None, sample_point (Fin 47) (Fin (-1)) None])) (int 2 - 1)
     = Some (total_f (calcRouteDistance
         [sample_point (Fin 47) (Fin (-1)) None, sample_point (Fin 47) (Fin (-1)) None])) \<and>
   non_decreasing (cumul (calcRouteDistance
       [sample_point (Fin 47) (Fin (-1)) None, sample_point (Fin 47) (Fin (-1)) None])) \<and>
   cumul (calcRouteDistance
       [sample_point (Fin 47) (Fin (-1)) None, sample_point (Fin 47) (Fin (-1)) None])
     = [Some (Fin 0), Some (Fin 0)]"
  using route_distance_cumul [of "[]"]
    route_distance_cumul [of "[sample_point (Fin 47) (Fin (-1)) None]"]
    route_distance_cumul [of "[sample_point (Fin 47) (Fin (-1)) None,
      sample_point (Fin 47) (Fin (-1)) None]"]
    distance_to_itself [of "sample_point (Fin 47) (Fin (-1)) None"]
  by (simp add: finite_point_def finite_num_def sample_point_def calcRouteDistance_eq
      dist_total_def)

lemma js_add_NaN: "js_add x NaN = NaN" "js_add NaN x = NaN"
  by (cases x; simp)+

lemma js_mul_NaN: "js_mul x NaN = NaN" "js_mul NaN x = NaN"
  by (cases x; simp)+

lemma js_div_NaN: "js_div x NaN = NaN" "js_div NaN x = NaN"
  by (cases x; simp)+

lemma calcDistanceBetween_nan:
  "lat p = NaN \<Longrightarrow> calcDistanceBetween p q = NaN"
  by (simp add: calcDistanceBetween_def Let_def Math_PI_def js_sub_def Math_sin_def
      Math_cos_def Math_sqrt_def js_add_NaN js_mul_NaN js_div_NaN)

lemma lat_abc: "lat (parse_trkpt dp (segpt_with_lat ''trkpt'' ''abc'')) = NaN"
  by (simp add: segpt_with_lat_def mk_elem_def getAttribute_def parse_trkpt_def Let_def
      or_str_def parseFloat_abc)

text \<open>
  C2 as stated fails on the two points parsed from track points with \<open>lat="abc"\<close>: their
  latitude is \<open>NaN\<close>, so is every distance, \<open>cumul\<close> is \<open>[NaN, NaN]\<close>, and
  \<open>NaN \<le> NaN\<close> is false.
\<close>

theorem route_distance_cumul_counterexample:
  "\<not> non_decreasing (cumul (calcRouteDistance
      [parse_trkpt utc_date_parse (segpt_with_lat ''trkpt'' ''abc''),
       parse_trkpt utc_date_parse (segpt_with_lat ''trkpt'' ''abc'')]))"
  by (simp add: calcRouteDistance_eq dist_total_def calcDistanceBetween_nan lat_abc js_le_def)

section \<open>Properties of the constructor\<close>

lemma push_loop_map: "push_loop body es acc = acc @ map body es"
  by (induction es arbitrary: acc) simp_all

text \<open>
  C5, as amended. For every point whose \<open>time\<close> child element is present with a
  non-empty text, parsing does not fail: the point's \<open>time\<close> is the \<open>Date\<close> built from
  the text, which is an invalid \<open>Date\<close> (time value \<open>NaN\<close>) when the text cannot be parsed
  as a timestamp; and the constructor returns a model, with one point per point element,
  whenever the tree library returns a document.
\<close>

theorem unparsable_time_no_failure:
  "(\<forall>t. getElementValue e ''time'' = Some t \<and> t \<noteq> [] \<longrightarrow>
      time (parse_wpt dp e) = Present (Some (Date (dp t))) \<and>
      time (parse_rtept dp e) = Present (Some (Date (dp t))) \<and>
      time (parse_trkpt dp e) = Present (Some (Date (dp t)))) \<and>
   (\<forall>doc. parseXml s = Some doc \<longrightarrow>
      GPXParser_constructor parseXml dp s = Inr (build dp doc) \<and>
      waypoints (build dp doc) = map (parse_wpt dp) (doc_querySelectorAll doc ''wpt'') \<and>
      map points (routes (build dp doc)) =
        map (\<lambda>rte. map (parse_rtept dp) (querySelectorAll rte ''rtept''))
          (doc_querySelectorAll doc ''rte'') \<and>
      map points (tracks (build dp doc)) =
        map (\<lambda>trk. map (parse_trkpt dp) (querySelectorAll trk ''trkpt''))
          (doc_querySelectorAll doc ''trk''))"
  by (simp add: parse_wpt_def parse_rtept_def parse_trkpt_def Let_def new_Date_def
      GPXParser_constructor_def build_def push_loop_map parse_rte_def parse_trk_def)

lemma doc_wpts_gpx_with_time:
  "doc_querySelectorAll (gpx_with_time txt) ''wpt'' = [wpt_with_time txt]"
  by (simp add: doc_querySelectorAll_def gpx_with_time_def mk_elem_def wpt_with_time_def leaf_def)

lemma utc_date_parse_garbage: "utc_date_parse ''not a timestamp'' = NaN"
  by (simp add: utc_date_parse_def)

theorem unparsable_time_no_failure_witness:
  "getElementValue (wpt_with_time ''not a timestamp'') ''time'' = Some ''not a timestamp'' \<and>
   utc_date_parse ''not a timestamp'' = NaN \<and>
   time (parse_wpt utc_date_parse (wpt_with_time ''not a timestamp'')) = Present (Some (Date NaN)) \<and>
   one_text_library ''not a timestamp'' (markup (documentElement (gpx_with_time ''not a timestamp'')))
     = Some (gpx_with_time ''not a timestamp'') \<and>
   GPXParser_constructor (one_text_library ''not a timestamp'') utc_date_parse
       (markup (documentElement (gpx_with_time ''not a timestamp'')))
     = Inr (build utc_date_parse (gpx_with_time ''not a timestamp''))"
  using unparsable_time_no_failure [of "wpt_with_time ''not a timestamp''" utc_date_parse
      "one_text_library ''not a timestamp''"
      "markup (documentElement (gpx_with_time ''not a timestamp''))"]
  by (simp add: wpt_with_time_def getElementValue_leaf utc_date_parse_garbage one_text_library_def)

text \<open>
  C5 as stated fails on a document with one waypoint whose \<open>time\<close> child holds
  \<open>not a timestamp\<close>: the constructor returns a model, and the waypoint's \<open>time\<close> is an
  invalid \<open>Date\<close>.
\<close>

theorem unparsable_time_counterexample:
  "GPXParser_constructor (one_text_library ''not a timestamp'') utc_date_parse
       (markup (documentElement (gpx_with_time ''not a timestamp'')))
     = Inr (build utc_date_parse (gpx_with_time ''not a timestamp'')) \<and>
   map time (waypoints (build utc_date_parse (gpx_with_time ''not a timestamp'')))
     = [Present (Some (Date NaN))]"
  by (simp add: GPXParser_constructor_def one_text_library_def build_def push_loop_map
      doc_wpts_gpx_with_time parse_wpt_def Let_def wpt_with_time_def getElementValue_leaf
      new_Date_def utc_date_parse_garbage)

section \<open>Properties of the field extractor\<close>

lemma directChilds_loop_last:
  "directChilds_loop cs needle fin =
     (if filter (\<lambda>c. tagName c = needle) cs = [] then fin
      else Some (last (filter (\<lambda>c. tagName c = needle) cs)))"
  by (induction cs arbitrary: fin) simp_all

text \<open>
  C6, as amended. For every node and tag name: when more than one descendant of the node
  matches the tag name, \<open>queryDirectSelector\<close> returns the last immediate child with
  that tag name if there is one, and the first matching descendant in document order
  otherwise; when at most one descendant matches, it returns that single matched
  descendant (or none when there is no match).
\<close>

theorem direct_selector_rule:
  "(1 < length (querySelectorAll nd needle) \<and> direct_matches nd needle \<noteq> [] \<longrightarrow>
      queryDirectSelector nd needle = Some (last (direct_matches nd needle))) \<and>
   (1 < length (querySelectorAll nd needle) \<and> direct_matches nd needle = [] \<longrightarrow>
      queryDirectSelector nd needle = Some (hd (querySelectorAll nd needle))) \<and>
   (\<forall>e. querySelectorAll nd needle = [e] \<longrightarrow> queryDirectSelector nd needle = Some e) \<and>
   (querySelectorAll nd needle = [] \<longrightarrow> queryDirectSelector nd needle = None)"
  by (cases "querySelectorAll nd needle")
     (simp_all add: queryDirectSelector_def Let_def directChilds_loop_last direct_matches_def)

lemma qsa_nested:
  "querySelectorAll rte_nested_types ''type'' = [leaf ''type'' ''Web'', leaf ''type'' ''x'']"
  by (simp add: rte_nested_types_def querySelectorAll_def mk_elem_def leaf_def)

lemma qsa_two:
  "querySelectorAll rte_two_types ''type'' = [leaf ''type'' ''Web'', leaf ''type'' ''MTB'']"
  by (simp add: rte_two_types_def querySelectorAll_def mk_elem_def leaf_def)

lemma qsa_one: "querySelectorAll rte_one_type ''type'' = [leaf ''type'' ''MTB'']"
  by (simp add: rte_one_type_def querySelectorAll_def mk_elem_def leaf_def)

lemma qsa_none: "querySelectorAll rte_no_type ''type'' = []"
  by (simp add: rte_no_type_def querySelectorAll_def mk_elem_def leaf_def)

lemma direct_nested: "direct_matches rte_nested_types ''type'' = []"
  by (simp add: rte_nested_types_def direct_matches_def mk_elem_def leaf_def)

lemma direct_two: "direct_matches rte_two_types ''type'' = [leaf ''type'' ''MTB'']"
  by (simp add: rte_two_types_def direct_matches_def mk_elem_def leaf_def)

theorem direct_selector_rule_witness:
  "1 < length (querySelectorAll rte_two_types ''type'') \<and>
   direct_matches rte_two_types ''type'' \<noteq> [] \<and>
   queryDirectSelector rte_two_types ''type'' = Some (leaf ''type'' ''MTB'') \<and>
   1 < length (querySelectorAll rte_nested_types ''type'') \<and>
   direct_matches rte_nested_types ''type'' = [] \<and>
   queryDirectSelector rte_nested_types ''type'' = Some (leaf ''type'' ''Web'') \<and>
   querySelectorAll rte_one_type ''type'' = [leaf ''type'' ''MTB''] \<and>
   queryDirectSelector rte_one_type ''type'' = Some (leaf ''type'' ''MTB'') \<and>
   querySelectorAll rte_no_type ''type'' = [] \<and>
   queryDirectSelector rte_no_type ''type'' = None"
  using direct_selector_rule [of rte_two_types "''type''"]
    direct_selector_rule [of rte_nested_types "''type''"]
    direct_selector_rule [of rte_one_type "''type''"]
    direct_selector_rule [of rte_no_type "''type''"]
  by (simp add: qsa_nested qsa_two qsa_one qsa_none direct_nested direct_two)

text \<open>
  C6 as stated fails on a route whose two \<open>type\<close> descendants both sit inside nested
  elements: the result is the first of them, which is not an immediate child of the route.
\<close>

theorem direct_selector_counterexample:
  "1 < length (querySelectorAll rte_nested_types ''type'') \<and>
   queryDirectSelector rte_nested_types ''type'' = Some (leaf ''type'' ''Web'') \<and>
   leaf ''type'' ''Web'' \<notin> set (children rte_nested_types)"
  by (simp add: queryDirectSelector_def qsa_nested)
     (simp add: rte_nested_types_def mk_elem_def leaf_def)

section \<open>Properties of the GeoJSON projection\<close>

lemma coordinates_loop_map:
  "coordinates_loop pts acc = acc @ map (\<lambda>pt. (lon pt, lat pt, or_zero (ele pt))) pts"
  by (induction pts arbitrary: acc) simp_all

lemma tracks_loop_map: "tracks_loop ts fs = fs @ map line_feature ts"
  by (induction ts arbitrary: fs) simp_all

lemma routes_loop_map: "routes_loop rs fs = fs @ map line_feature rs"
  by (induction rs arbitrary: fs) simp_all

lemma waypoints_loop_map: "waypoints_loop ws fs = fs @ map point_feature ws"
  by (induction ws arbitrary: fs) simp_all

lemma or_zero_no_nan:
  "no_nan_ele pt \<Longrightarrow> or_zero (ele pt) = (case ele pt of None \<Rightarrow> Fin 0 | Some e \<Rightarrow> e)"
  by (auto simp: no_nan_ele_def or_zero_def truthy_def split: option.splits)

lemma point_feature_spec: "no_nan_ele pt \<Longrightarrow> point_feature pt = spec_point_feature pt"
  by (simp add: point_feature_def spec_point_feature_def spec_triplet_def or_zero_no_nan)

lemma line_feature_spec:
  "list_all no_nan_ele (points r) \<Longrightarrow> line_feature r = spec_line_feature r"
  by (simp add: line_feature_def spec_line_feature_def coordinates_loop_map spec_triplet_def
      or_zero_no_nan list_all_iff)

lemma toGeoJSON_spec:
  assumes "list_all no_nan_ele (waypoints g)"
    and "list_all (\<lambda>r. list_all no_nan_ele (points r)) (routes g)"
    and "list_all (\<lambda>r. list_all no_nan_ele (points r)) (tracks g)"
  shows "features (toGeoJSON g) = spec_features g"
  using assms
  by (simp add: toGeoJSON_def tracks_loop_map routes_loop_map waypoints_loop_map
      spec_features_def list_all_iff point_feature_spec line_feature_spec)

lemma parsed_no_nan:
  "no_nan_ele (parse_wpt dp e)" "no_nan_ele (parse_rtept dp e)" "no_nan_ele (parse_trkpt dp e)"
  by (simp_all add: no_nan_ele_def parse_wpt_def parse_rtept_def parse_trkpt_def Let_def isNaN_def)

lemma build_no_nan:
  "list_all no_nan_ele (waypoints (build dp doc))"
  "list_all (\<lambda>r. list_all no_nan_ele (points r)) (routes (build dp doc))"
  "list_all (\<lambda>r. list_all no_nan_ele (points r)) (tracks (build dp doc))"
  by (simp_all add: build_def push_loop_map list_all_iff parsed_no_nan parse_rte_def
      parse_trk_def Let_def)

text \<open>
  C7. For every parsed model, \<open>toGeoJSON\<close> returns a FeatureCollection whose top-level
  properties equal the parsed metadata, whose feature list is one LineString feature per
  track in parse order, then one per route in parse order, then one Point feature per
  waypoint in parse order, and whose coordinates are \<open>[lon, lat, ele]\<close> triplets with a
  null elevation replaced by 0.
\<close>

theorem geojson_projection:
  "gj_type (toGeoJSON (build dp doc)) = ''FeatureCollection'' \<and>
   properties (toGeoJSON (build dp doc)) = metadata (build dp doc) \<and>
   features (toGeoJSON (build dp doc)) = spec_features (build dp doc) \<and>
   tracks (build dp doc) = map (parse_trk dp) (doc_querySelectorAll doc ''trk'') \<and>
   routes (build dp doc) = map (parse_rte dp) (doc_querySelectorAll doc ''rte'') \<and>
   waypoints (build dp doc) = map (parse_wpt dp) (doc_querySelectorAll doc ''wpt'')"
proof -
  have "features (toGeoJSON (build dp doc)) = spec_features (build dp doc)"
    by (rule toGeoJSON_spec [OF build_no_nan [of dp doc]])
  moreover have "properties (toGeoJSON (build dp doc)) = metadata (build dp doc)"
    by (simp add: toGeoJSON_def)
  moreover have "gj_type (toGeoJSON (build dp doc)) = ''FeatureCollection''"
    by (simp add: toGeoJSON_def)
  ultimately show ?thesis
    by (simp add: build_def push_loop_map)
qed

lemma sample_gpx_elements:
  "doc_querySelectorAll sample_gpx ''trk'' = [sample_trk]"
  "doc_querySelectorAll sample_gpx ''rte'' = []"
  "doc_querySelectorAll sample_gpx ''wpt'' = [sample_wpt]"
  "querySelectorAll sample_trk ''trkpt'' = [sample_trkpt_ele, sample_trkpt_no_ele]"
  by (simp_all add: doc_querySelectorAll_def querySelectorAll_def sample_gpx_def sample_trk_def
      sample_wpt_def sample_trkpt_ele_def sample_trkpt_no_ele_def mk_elem_def leaf_def)

lemma parseFloat_digits:
  "parseFloat ''1'' = Fin 1" "parseFloat ''3'' = Fin 3" "parseFloat ''4'' = Fin 4"
  "parseFloat ''5'' = Fin 5"
  by (simp_all add: parseFloat_def double_range_def strip_sign_def is_space_def is_digit_def digits_val_def
      digit_val_def scale10_def exponent_part_def)

lemma sample_points:
  "spec_triplet (parse_trkpt dp sample_trkpt_ele) = (Fin 2, Fin 1, Fin 5)"
  "spec_triplet (parse_trkpt dp sample_trkpt_no_ele) = (Fin 4, Fin 3, Fin 0)"
  "spec_triplet (parse_wpt dp sample_wpt) = (Fin 2, Fin 1, Fin 5)"
  by (simp_all add: spec_triplet_def parse_trkpt_def parse_wpt_def Let_def
      sample_trkpt_ele_def sample_trkpt_no_ele_def sample_wpt_def mk_elem_def
      getAttribute_def getElementValue_def querySelector_def querySelectorAll_def leaf_def
      or_str_def isNaN_def parseFloat_digits parseFloat_two parseFloat_zero)

lemma geojson_example_aux:
  "features (toGeoJSON (build utc_date_parse sample_gpx)) =
     [spec_line_feature (parse_trk utc_date_parse sample_trk),
      spec_point_feature (parse_wpt utc_date_parse sample_wpt)]"
  "points (parse_trk utc_date_parse sample_trk) =
     [parse_trkpt utc_date_parse sample_trkpt_ele, parse_trkpt utc_date_parse sample_trkpt_no_ele]"
proof -
  show "features (toGeoJSON (build utc_date_parse sample_gpx)) =
     [spec_line_feature (parse_trk utc_date_parse sample_trk),
      spec_point_feature (parse_wpt utc_date_parse sample_wpt)]"
    by (simp add: toGeoJSON_spec [OF build_no_nan] spec_features_def)
       (simp add: build_def push_loop_map sample_gpx_elements)
  show "points (parse_trk utc_date_parse sample_trk) =
     [parse_trkpt utc_date_parse sample_trkpt_ele, parse_trkpt utc_date_parse sample_trkpt_no_ele]"
    by (simp add: parse_trk_def Let_def push_loop_map sample_gpx_elements)
qed

text \<open>
  The projection of a document with one track of two points, the second without an
  \<open>ele\<close> child, and one waypoint.
\<close>

lemma geojson_example:
  "map line_coordinates (take 1 (features (toGeoJSON (build utc_date_parse sample_gpx))))
     = [[(Fin 2, Fin 1, Fin 5), (Fin 4, Fin 3, Fin 0)]] \<and>
   map point_coordinates (drop 1 (features (toGeoJSON (build utc_date_parse sample_gpx))))
     = [(Fin 2, Fin 1, Fin 5)] \<and>
   length (features (toGeoJSON (build utc_date_parse sample_gpx))) = 2"
  by (simp add: geojson_example_aux spec_line_feature_def spec_point_feature_def sample_points)

end
